theory Spec2Isabelle
  imports Complex_Main "HOL-Library.Product_Lexorder" "HOL-Library.Multiset"
begin

section \<open>The retention engine of the tutoring platform\<close>

text \<open>
  The class \<^verbatim>\<open>RetentionAlgorithm\<close> is a set of static methods over JavaScript
  numbers. Its parameters are modelled as reals: finite numbers, with exact
  arithmetic. Instants (\<^verbatim>\<open>Date\<close> values) are integers, the milliseconds since the
  epoch, and the clock \<^verbatim>\<open>new Date()\<close> is a parameter \<open>now\<close>, read once per call.
  Three places leave the reals and are written out with the values of the
  JavaScript number type:
  \<^item> the division by \<^verbatim>\<open>Math.log(1)\<close> in the strength estimator, which is infinite;
  \<^item> the review date of an attempt, which may be absent: the quiz controller stores
    it under the name \<^verbatim>\<open>nextReview\<close> while the ranker reads \<^verbatim>\<open>nextReviewDate\<close>, and
    \<^verbatim>\<open>new Date(undefined)\<close> is an invalid date whose distance to now is NaN;
  \<^item> the averages of the trend, which are rounded to doubles before they are
    compared, so that a tie of the exact values is decided by the rounding.
\<close>

subsection \<open>JavaScript numbers that need not be finite\<close>

datatype jsnum = Num real | Infinity | NegInfinity | NaN

text \<open>
  \<^verbatim>\<open>x / y\<close> on finite operands; the divisor zero (the positive zero, as
  \<^verbatim>\<open>Math.log(1)\<close> is) gives an infinity with the sign of \<open>x\<close>, or NaN for \<open>x = 0\<close>.
\<close>

definition js_div :: "real \<Rightarrow> real \<Rightarrow> jsnum" where
  "js_div x y =
     (if y \<noteq> 0 then Num (x / y)
      else if 0 < x then Infinity
      else if x < 0 then NegInfinity
      else NaN)"

text \<open>\<^verbatim>\<open>Math.min(c, v)\<close> and \<^verbatim>\<open>Math.max(c, v)\<close> with a finite first argument.\<close>

fun Math_min :: "real \<Rightarrow> jsnum \<Rightarrow> jsnum" where
  "Math_min c (Num v) = Num (min c v)"
| "Math_min c Infinity = Num c"
| "Math_min c NegInfinity = NegInfinity"
| "Math_min c NaN = NaN"

fun Math_max :: "real \<Rightarrow> jsnum \<Rightarrow> jsnum" where
  "Math_max c (Num v) = Num (max c v)"
| "Math_max c Infinity = Infinity"
| "Math_max c NegInfinity = Num c"
| "Math_max c NaN = NaN"

text \<open>The operators \<^verbatim>\<open><=\<close> and \<^verbatim>\<open>-\<close>, and \<^verbatim>\<open>Math.abs\<close>; a comparison with NaN is false.\<close>

fun js_le :: "jsnum \<Rightarrow> jsnum \<Rightarrow> bool" where
  "js_le (Num a) (Num b) = (a \<le> b)"
| "js_le NaN _ = False"
| "js_le _ NaN = False"
| "js_le NegInfinity _ = True"
| "js_le _ Infinity = True"
| "js_le _ _ = False"

fun js_sub :: "jsnum \<Rightarrow> jsnum \<Rightarrow> jsnum" where
  "js_sub (Num a) (Num b) = Num (a - b)"
| "js_sub NaN _ = NaN"
| "js_sub _ NaN = NaN"
| "js_sub Infinity Infinity = NaN"
| "js_sub NegInfinity NegInfinity = NaN"
| "js_sub Infinity _ = Infinity"
| "js_sub NegInfinity _ = NegInfinity"
| "js_sub _ Infinity = NegInfinity"
| "js_sub _ NegInfinity = Infinity"

fun Math_abs :: "jsnum \<Rightarrow> jsnum" where
  "Math_abs (Num v) = Num \<bar>v\<bar>"
| "Math_abs Infinity = Infinity"
| "Math_abs NegInfinity = Infinity"
| "Math_abs NaN = NaN"

text \<open>\<^verbatim>\<open>Math.round\<close> rounds to the nearest integer, a half towards plus infinity.\<close>

definition Math_round :: "real \<Rightarrow> int" where
  "Math_round x = \<lfloor>x + 1 / 2\<rfloor>"

text \<open>\<^verbatim>\<open>Math.round\<close> on a number that need not be finite.\<close>

fun Math_round_js :: "jsnum \<Rightarrow> jsnum" where
  "Math_round_js (Num v) = Num (real_of_int (Math_round v))"
| "Math_round_js Infinity = Infinity"
| "Math_round_js NegInfinity = NegInfinity"
| "Math_round_js NaN = NaN"

text \<open>The number of milliseconds in a day, \<^verbatim>\<open>1000 * 60 * 60 * 24\<close>.\<close>

definition ms_per_day :: real where
  "ms_per_day = 1000 * 60 * 60 * 24"

subsection \<open>Decay model, strength estimator, score mapping, scheduler\<close>

definition calculateRetention :: "real \<Rightarrow> real \<Rightarrow> real" where
  "calculateRetention t S =
     (if S \<le> 0 then 0
      else let retention = exp (- t / S) * 100
           in max 0 (min 100 retention))"

definition calculateLearningStrength :: "real \<Rightarrow> real \<Rightarrow> real \<Rightarrow> real \<Rightarrow> jsnum" where
  "calculateLearningStrength t t0 R0 R =
     (let timeDiff = t - t0 in
      if timeDiff \<le> 0 \<or> R \<le> 0 \<or> R0 \<le> 0 then Num 5
      else let retentionRatio = R0 / R in
        if retentionRatio \<le> 0 then Num 5
        else let S = js_div timeDiff (ln retentionRatio)
             in Math_max 1 (Math_min 60 S))"

definition scoreToRetention :: "real \<Rightarrow> real" where
  "scoreToRetention score =
     (if score \<ge> 90 then 95
      else if score \<ge> 80 then 85
      else if score \<ge> 70 then 75
      else if score \<ge> 60 then 60
      else if score \<ge> 50 then 45
      else max 20 (score * 0.4))"

definition calculateNextReviewDays :: "real \<Rightarrow> real \<Rightarrow> int" where
  "calculateNextReviewDays S retentionThreshold =
     (let ratio = retentionThreshold / 100 in
      if ratio \<le> 0 then 1
      else let daysUntilReview = - S * ln ratio
           in max 1 (Math_round daysUntilReview))"

subsection \<open>Attempt records and the update of the learning strength\<close>

text \<open>
  An attempt as the engine reads it: the fields \<^verbatim>\<open>date\<close>, \<^verbatim>\<open>score\<close>, \<^verbatim>\<open>S\<close> and
  \<^verbatim>\<open>nextReviewDate\<close>. The fields \<^verbatim>\<open>S\<close> and \<^verbatim>\<open>nextReviewDate\<close> may be absent; an
  attempt recorded by the quiz controller has no \<^verbatim>\<open>nextReviewDate\<close>.
\<close>

record attempt =
  date :: int
  score :: real
  attempt_S :: "real option"
  nextReviewDate :: "int option"

text \<open>\<^verbatim>\<open>x || d\<close> on a number that may be absent: zero and undefined are falsy.\<close>

definition or_default :: "real option \<Rightarrow> real \<Rightarrow> real" where
  "or_default v d = (case v of None \<Rightarrow> d | Some x \<Rightarrow> if x = 0 then d else x)"

text \<open>The object returned by \<^verbatim>\<open>updateLearningStrength\<close>; each branch sets some fields.\<close>

record strength_update =
  upd_S :: jsnum
  upd_retention :: real
  upd_firstAttempt :: "bool option"
  upd_timeSinceLastReview :: "real option"
  upd_previousRetention :: "real option"

definition updateLearningStrength :: "int \<Rightarrow> attempt list option \<Rightarrow> real \<Rightarrow> strength_update" where
  "updateLearningStrength now attemptHistory currentScore =
     (if attemptHistory = None \<or> length (the attemptHistory) = 0 then
        let initialRetention = scoreToRetention currentScore
        in \<lparr>upd_S = Num 5, upd_retention = initialRetention, upd_firstAttempt = Some True,
            upd_timeSinceLastReview = None, upd_previousRetention = None\<rparr>
      else
        let lastAttempt = last (the attemptHistory);
            currentDate = now;
            lastDate = date lastAttempt;
            timeDiff = real_of_int (currentDate - lastDate) / ms_per_day;
            previousRetention = scoreToRetention (score lastAttempt);
            currentRetention = scoreToRetention currentScore;
            S = calculateLearningStrength timeDiff 0 previousRetention currentRetention
        in \<lparr>upd_S = S, upd_retention = currentRetention, upd_firstAttempt = None,
            upd_timeSinceLastReview = Some timeDiff,
            upd_previousRetention = Some previousRetention\<rparr>)"

text \<open>
  \<^verbatim>\<open>setDate(getDate() + n)\<close> moves an instant by \<open>n\<close> calendar days; here a day is
  86400000 ms, which is exact where the local clock does not change in between.
\<close>

definition calculateNextReviewDate :: "real \<Rightarrow> int \<Rightarrow> int" where
  "calculateNextReviewDate S lastReviewDate =
     (let daysUntilReview = calculateNextReviewDays S 40
      in lastReviewDate + daysUntilReview * 86400000)"

subsection \<open>Recommendation ranker\<close>

datatype priority = High | Medium | Low

text \<open>
  The reason texts; \<open>Overdue_by n\<close> is the template string
  \<^verbatim>\<open>Overdue by ${n} days\<close> for the number \<open>n\<close>.
\<close>

datatype reason =
    New_quiz_never_attempted
  | Overdue_by jsnum
  | Due_soon
  | Low_score_needs_reinforcement
  | Review_upcoming

text \<open>A quiz with its history; \<open>quizId\<close> stands for the fields the engine only copies.\<close>

record quiz =
  quizId :: nat
  lastAttempt :: "attempt option"

text \<open>The result spreads the quiz and adds the computed fields.\<close>

record recommendation = quiz +
  priority :: priority
  reason :: reason
  daysUntilDue :: jsnum
  isDue :: bool
  retention :: "real option"

text \<open>
  The signed distance to the stored review date, in days:
  \<^verbatim>\<open>(new Date(nextReviewDate) - now) / (1000 * 60 * 60 * 24)\<close>, NaN when the field is
  absent.
\<close>

definition rawDaysUntilDue :: "int \<Rightarrow> attempt \<Rightarrow> jsnum" where
  "rawDaysUntilDue now a =
     (case nextReviewDate a of
        None \<Rightarrow> NaN
      | Some d \<Rightarrow> Num (real_of_int (d - now) / ms_per_day))"

text \<open>The callback of \<^verbatim>\<open>quizzes.map\<close>.\<close>

definition recommend :: "int \<Rightarrow> quiz \<Rightarrow> recommendation" where
  "recommend now q =
     (case lastAttempt q of
        None \<Rightarrow>
          \<lparr>quizId = quizId q, lastAttempt = lastAttempt q,
           priority = High, reason = New_quiz_never_attempted,
           daysUntilDue = Num 0, isDue = True, retention = None\<rparr>
      | Some la \<Rightarrow>
          let lastAttemptDate = date la;
              daysSinceReview = real_of_int (now - lastAttemptDate) / ms_per_day;
              daysUntilDue' = rawDaysUntilDue now la;
              isDue' = js_le daysUntilDue' (Num 0);
              (priority', reason') =
                (if isDue' then (High, Overdue_by (Math_round_js (Math_abs daysUntilDue')))
                 else if js_le daysUntilDue' (Num 1) then (Medium, Due_soon)
                 else if score la < 70 then (High, Low_score_needs_reinforcement)
                 else (Low, Review_upcoming))
          in \<lparr>quizId = quizId q, lastAttempt = lastAttempt q,
              priority = priority', reason = reason',
              daysUntilDue = Math_max 0 daysUntilDue', isDue = isDue',
              retention = Some (calculateRetention daysSinceReview (or_default (attempt_S la) 5))\<rparr>)"

fun priorityOrder :: "priority \<Rightarrow> real" where
  "priorityOrder High = 0"
| "priorityOrder Medium = 1"
| "priorityOrder Low = 2"

text \<open>The comparator given to \<^verbatim>\<open>sort\<close>.\<close>

definition compareRecs :: "recommendation \<Rightarrow> recommendation \<Rightarrow> jsnum" where
  "compareRecs a b =
     (let priorityDiff = priorityOrder (priority a) - priorityOrder (priority b)
      in if priorityDiff \<noteq> 0 then Num priorityDiff
         else js_sub (daysUntilDue a) (daysUntilDue b))"

text \<open>
  \<^verbatim>\<open>Array.prototype.sort\<close> is a stable sort by the comparator: an element stays
  before a later one unless the comparator puts it strictly after, and a comparator
  value NaN counts as \<open>+0\<close>. It is written here as a stable insertion sort. The
  language fixes the result when the comparator is consistent on the elements, as
  it is when no returned \<open>daysUntilDue\<close> is NaN, and when all elements compare equal;
  otherwise it leaves the order to the implementation.
\<close>

fun not_after :: "jsnum \<Rightarrow> bool" where
  "not_after (Num v) = (v \<le> 0)"
| "not_after NaN = True"
| "not_after NegInfinity = True"
| "not_after Infinity = False"

fun insert_by :: "('a \<Rightarrow> 'a \<Rightarrow> jsnum) \<Rightarrow> 'a \<Rightarrow> 'a list \<Rightarrow> 'a list" where
  "insert_by cmp x [] = [x]"
| "insert_by cmp x (y # ys) =
     (if not_after (cmp x y) then x # y # ys else y # insert_by cmp x ys)"

definition js_sort :: "('a \<Rightarrow> 'a \<Rightarrow> jsnum) \<Rightarrow> 'a list \<Rightarrow> 'a list" where
  "js_sort cmp xs = foldr (insert_by cmp) xs []"

definition getQuizRecommendations :: "int \<Rightarrow> quiz list \<Rightarrow> recommendation list" where
  "getQuizRecommendations now quizzes = js_sort compareRecs (map (recommend now) quizzes)"

text \<open>
  A quiz whose last attempt, if any, carries a review date; and the sort key that
  the comparator induces on results with a finite \<open>daysUntilDue\<close>: priority rank,
  then the returned field.
\<close>

definition has_review_date :: "quiz \<Rightarrow> bool" where
  "has_review_date q =
     (case lastAttempt q of None \<Rightarrow> True | Some la \<Rightarrow> nextReviewDate la \<noteq> None)"

fun finite_value :: "jsnum \<Rightarrow> real" where
  "finite_value (Num v) = v"
| "finite_value _ = 0"

definition rec_key :: "recommendation \<Rightarrow> real \<times> real" where
  "rec_key r = (priorityOrder (priority r), finite_value (daysUntilDue r))"

subsection \<open>Lesson statistics\<close>

datatype trend = Neutral | Improving | Declining

record lesson =
  quizAttempts :: "attempt list option"

record lesson_stats =
  averageScore :: int
  attemptCount :: nat
  averageLearningStrength :: real
  currentRetention :: int
  trend :: trend
  stats_nextReviewDate :: "int option"

text \<open>
  The double nearest to a real number: 53 significant bits, a tie going to the even
  neighbour. The exponent is not bounded, as no overflow or underflow arises at the
  magnitude of scores. Each arithmetic operation on doubles returns the double
  nearest to the exact result.
\<close>

definition round_ties_even :: "real \<Rightarrow> int" where
  "round_ties_even y =
     (let f = \<lfloor>y\<rfloor>; d = y - real_of_int f
      in if d < 1 / 2 then f
         else if d > 1 / 2 then f + 1
         else if even f then f else f + 1)"

definition to_double :: "real \<Rightarrow> real" where
  "to_double x =
     (if x = 0 then 0
      else let e = \<lfloor>log 2 \<bar>x\<bar>\<rfloor>;
               ulp = 2 powr (real_of_int e - 52)
           in real_of_int (round_ties_even (x / ulp)) * ulp)"

text \<open>
  \<^verbatim>\<open>xs.reduce((a, b) => a + b, 0)\<close> on doubles, \<^verbatim>\<open>xs.slice(-3)\<close> (the last three
  elements, or all of a shorter list) and \<^verbatim>\<open>xs.slice(0, -3)\<close> (all but the last
  three, empty for a shorter list).
\<close>

definition reduce_sum :: "real list \<Rightarrow> real" where
  "reduce_sum xs = foldl (\<lambda>a b. to_double (a + b)) 0 xs"

definition slice_last3 :: "'a list \<Rightarrow> 'a list" where
  "slice_last3 xs = drop (length xs - 3) xs"

definition slice_but_last3 :: "'a list \<Rightarrow> 'a list" where
  "slice_but_last3 xs = take (length xs - 3) xs"

definition calculateLessonStats :: "int \<Rightarrow> lesson \<Rightarrow> lesson_stats" where
  "calculateLessonStats now l =
     (if quizAttempts l = None \<or> length (the (quizAttempts l)) = 0 then
        \<lparr>averageScore = 0, attemptCount = 0, averageLearningStrength = 5,
         currentRetention = 0, trend = Neutral, stats_nextReviewDate = None\<rparr>
      else
        let attempts = the (quizAttempts l);
            scores = map score attempts;
            averageScore' = to_double (reduce_sum scores / real (length scores));
            trend' =
              (if length attempts \<ge> 2 then
                 let recentAvg =
                       to_double (reduce_sum (slice_last3 scores)
                                    / real (min 3 (length scores)));
                     olderAvg =
                       to_double (reduce_sum (slice_but_last3 scores)
                                    / real_of_int (max 1 (int (length scores) - 3)))
                 in if recentAvg > to_double (olderAvg + 5) then Improving
                    else if recentAvg < to_double (olderAvg - 5) then Declining
                    else Neutral
               else Neutral);
            lastAttempt' = last attempts;
            averageLearningStrength' = or_default (attempt_S lastAttempt') 5;
            lastDate = date lastAttempt';
            daysSinceReview = real_of_int (now - lastDate) / ms_per_day;
            currentRetention' = calculateRetention daysSinceReview averageLearningStrength'
        in \<lparr>averageScore = Math_round averageScore',
            attemptCount = length attempts,
            averageLearningStrength = real_of_int (Math_round (averageLearningStrength' * 10)) / 10,
            currentRetention = Math_round currentRetention',
            trend = trend',
            stats_nextReviewDate = Some (calculateNextReviewDate averageLearningStrength' lastDate)\<rparr>)"

text \<open>
  The exact mean of a nonempty list of scores, in the words of the specification of
  the trend.
\<close>

definition mean :: "real list \<Rightarrow> real" where
  "mean xs = sum_list xs / real (length xs)"

subsection \<open>Sample inputs\<close>

text \<open>
  Day 10 as an instant, and two quizzes whose last attempt scored 80 at instant 0:
  one due at day 9, one due at day 5.
\<close>

abbreviation day10 :: int where
  "day10 \<equiv> 864000000"

abbreviation attempt_due_day9 :: attempt where
  "attempt_due_day9 \<equiv> \<lparr>date = 0, score = 80, attempt_S = Some 5, nextReviewDate = Some 777600000\<rparr>"

abbreviation attempt_due_day5 :: attempt where
  "attempt_due_day5 \<equiv> \<lparr>date = 0, score = 80, attempt_S = Some 5, nextReviewDate = Some 432000000\<rparr>"

abbreviation quiz_due_day9 :: quiz where
  "quiz_due_day9 \<equiv> \<lparr>quizId = 11, lastAttempt = Some attempt_due_day9\<rparr>"

abbreviation quiz_due_day5 :: quiz where
  "quiz_due_day5 \<equiv> \<lparr>quizId = 12, lastAttempt = Some attempt_due_day5\<rparr>"

text \<open>
  A quiz whose last attempt scored 50 at instant 0 and is due at day 2, and a quiz
  never attempted.
\<close>

abbreviation quiz_low_score :: quiz where
  "quiz_low_score \<equiv>
     \<lparr>quizId = 11,
      lastAttempt =
        Some \<lparr>date = 0, score = 50, attempt_S = None, nextReviewDate = Some 172800000\<rparr>\<rparr>"

abbreviation quiz_new :: quiz where
  "quiz_new \<equiv> \<lparr>quizId = 12, lastAttempt = None\<rparr>"

text \<open>
  A quiz whose last attempt is as the quiz controller records it: score 50, strength
  5, and no field \<^verbatim>\<open>nextReviewDate\<close>.
\<close>

abbreviation quiz_no_review_date :: quiz where
  "quiz_no_review_date \<equiv>
     \<lparr>quizId = 11,
      lastAttempt = Some \<lparr>date = 0, score = 50, attempt_S = Some 5, nextReviewDate = None\<rparr>\<rparr>"

text \<open>An attempt at instant 0 with a given score and no stored strength.\<close>

abbreviation scored :: "real \<Rightarrow> attempt" where
  "scored s \<equiv> \<lparr>date = 0, score = s, attempt_S = None, nextReviewDate = None\<rparr>"

section \<open>Properties\<close>

subsection \<open>Rounding and the logarithm of 5/2\<close>

lemma Math_round_near: "\<bar>real_of_int (Math_round x) - x\<bar> \<le> 1 / 2"
  unfolding Math_round_def by linarith

lemma Math_round_ge_1_iff: "1 \<le> Math_round x \<longleftrightarrow> 1 / 2 \<le> x"
  unfolding Math_round_def by linarith

lemma exp_9_10_le: "exp (9 / 10 :: real) \<le> 5 / 2"
proof -
  have "(1 + (- (9 / 10)) / real 32) ^ 32 \<le> exp (- (9 / 10) :: real)"
    by (rule exp_ge_one_plus_x_over_n_power_n) simp_all
  moreover have "(1 + (- (9 / 10)) / real 32) = (311 / 320 :: real)"
    by simp
  moreover have "(2 / 5 :: real) \<le> (311 / 320) ^ 32"
    by (simp add: power_divide)
  ultimately have "2 / 5 \<le> exp (- (9 / 10) :: real)" by (simp only:)
  then have "2 / 5 \<le> 1 / exp (9 / 10 :: real)"
    by (simp add: exp_minus inverse_eq_divide)
  then have "2 / 5 * exp (9 / 10 :: real) \<le> 1"
    by (simp add: pos_le_divide_eq)
  then show ?thesis by simp
qed

lemma exp_11_10_gt: "5 / 2 < exp (11 / 10 :: real)"
proof -
  have "(1 + (11 / 10) / real 4) ^ 4 \<le> exp (11 / 10 :: real)"
    by (rule exp_ge_one_plus_x_over_n_power_n) simp_all
  moreover have "(5 / 2 :: real) < (1 + (11 / 10) / real 4) ^ 4"
    by (simp add: power4_eq_xxxx)
  ultimately show ?thesis by linarith
qed

lemma ln_5_2_bounds: "9 / 10 \<le> ln (5 / 2 :: real)" "ln (5 / 2 :: real) < 11 / 10"
proof -
  show "9 / 10 \<le> ln (5 / 2 :: real)"
    using exp_9_10_le ln_ge_iff [of "5 / 2" "9 / 10"] by simp
  have "exp (ln (5 / 2 :: real)) < exp (11 / 10)"
    using exp_11_10_gt by simp
  then show "ln (5 / 2 :: real) < 11 / 10"
    by (simp only: exp_less_cancel_iff)
qed

lemma ln_2_5: "ln (2 / 5 :: real) = - ln (5 / 2)"
  by (simp add: ln_div)

lemma days_default_5: "calculateNextReviewDays 5 40 = 5"
proof -
  have "Math_round (5 * ln (5 / 2)) = 5"
    unfolding Math_round_def using ln_5_2_bounds by (intro floor_unique) simp_all
  then show ?thesis
    by (simp add: calculateNextReviewDays_def Let_def ln_2_5)
qed


subsection \<open>Decay model\<close>

lemma calculateRetention_pos:
  "0 < S \<Longrightarrow> calculateRetention t S = min 100 (100 * exp (- t / S))"
  by (simp add: calculateRetention_def Let_def max_def min_def mult.commute)

text \<open>
  C4: for \<open>S > 0\<close> the retention is \<open>100 * exp (- t / S)\<close> clamped to \<open>[0, 100]\<close>,
  it is 100 at \<open>t = 0\<close>, it does not increase with \<open>t\<close> (and decreases strictly from
  \<open>t = 0\<close> on), it does not decrease with \<open>S\<close> at a fixed \<open>t > 0\<close> (and increases
  strictly over positive \<open>S\<close>); for \<open>S \<le> 0\<close> it is 0.
\<close>

theorem calculateRetention_decay:
  "(0 < S \<longrightarrow> calculateRetention t S = max 0 (min 100 (100 * exp (- t / S)))) \<and>
   (0 < S \<longrightarrow> calculateRetention 0 S = 100) \<and>
   (0 < S \<and> t1 \<le> t2 \<longrightarrow> calculateRetention t2 S \<le> calculateRetention t1 S) \<and>
   (0 < S \<and> 0 \<le> t1 \<and> t1 < t2 \<longrightarrow> calculateRetention t2 S < calculateRetention t1 S) \<and>
   (0 < t \<and> S1 \<le> S2 \<longrightarrow> calculateRetention t S1 \<le> calculateRetention t S2) \<and>
   (0 < t \<and> 0 < S1 \<and> S1 < S2 \<longrightarrow> calculateRetention t S1 < calculateRetention t S2) \<and>
   (S \<le> 0 \<longrightarrow> calculateRetention t S = 0)"
proof (intro conjI impI)
  assume "0 < S"
  then show "calculateRetention t S = max 0 (min 100 (100 * exp (- t / S)))"
    by (simp add: calculateRetention_def Let_def mult.commute)
next
  assume "0 < S"
  then show "calculateRetention 0 S = 100"
    by (simp add: calculateRetention_pos)
next
  assume a: "0 < S \<and> t1 \<le> t2"
  then have "- t2 / S \<le> - t1 / S"
    by (simp add: divide_right_mono)
  then have le: "exp (- t2 / S) \<le> exp (- t1 / S)" by simp
  have "min 100 (100 * a) \<le> min 100 (100 * b)" if "a \<le> b" for a b :: real
    using that by (simp add: min_def)
  from this [OF le] a show "calculateRetention t2 S \<le> calculateRetention t1 S"
    by (simp only: calculateRetention_pos)
next
  assume a: "0 < S \<and> 0 \<le> t1 \<and> t1 < t2"
  then have "- t2 / S < - t1 / S"
    by (simp add: divide_strict_right_mono)
  then have lt: "exp (- t2 / S) < exp (- t1 / S)" by simp
  from a have "- t1 / S \<le> 0" by (simp add: divide_nonpos_pos)
  then have le: "exp (- t1 / S) \<le> 1" by simp
  have "min 100 (100 * a) < min 100 (100 * b)" if "a < b" "b \<le> 1" for a b :: real
    using that by (simp add: min_def)
  from this [OF lt le] a show "calculateRetention t2 S < calculateRetention t1 S"
    by (simp only: calculateRetention_pos)
next
  assume a: "0 < t \<and> S1 \<le> S2"
  show "calculateRetention t S1 \<le> calculateRetention t S2"
  proof (cases "0 < S1")
    case False
    then show ?thesis by (simp add: calculateRetention_def Let_def)
  next
    case True
    with a have "t / S2 \<le> t / S1" by (simp add: frac_le)
    then have le: "exp (- t / S1) \<le> exp (- t / S2)" by simp
    have "min 100 (100 * a) \<le> min 100 (100 * b)" if "a \<le> b" for a b :: real
      using that by (simp add: min_def)
    from this [OF le] have "min 100 (100 * exp (- t / S1)) \<le> min 100 (100 * exp (- t / S2))" .
    moreover from a True have "0 < S2" by simp
    ultimately show ?thesis
      using le True by (simp only: calculateRetention_pos)
  qed
next
  assume a: "0 < t \<and> 0 < S1 \<and> S1 < S2"
  then have "t / S2 < t / S1" by (simp add: frac_less2)
  then have lt: "exp (- t / S1) < exp (- t / S2)" by simp
  from a have "- t / S2 < 0" by (simp add: divide_neg_pos)
  then have le: "exp (- t / S2) \<le> 1" by simp
  have "min 100 (100 * a) < min 100 (100 * b)" if "a < b" "b \<le> 1" for a b :: real
    using that by (simp add: min_def)
  from this [OF lt le]
  have "min 100 (100 * exp (- t / S1)) < min 100 (100 * exp (- t / S2))" .
  moreover from a have "0 < S1" "0 < S2" by simp_all
  ultimately show "calculateRetention t S1 < calculateRetention t S2"
    by (simp only: calculateRetention_pos)
next
  assume "S \<le> 0"
  then show "calculateRetention t S = 0" by (simp add: calculateRetention_def)
qed

theorem calculateRetention_decay_witness:
  "calculateRetention 0 5 = 100 \<and>
   calculateRetention 2 5 < calculateRetention 1 5 \<and>
   calculateRetention 1 5 < calculateRetention 1 6 \<and>
   calculateRetention 3 0 = 0"
  using calculateRetention_decay [of 5 1 1 2 5 6] calculateRetention_decay [of 0 3]
  by simp

subsection \<open>Strength estimator, scheduler and first attempt\<close>

lemma ln_ratio_zero_iff: "0 < R0 \<Longrightarrow> 0 < R \<Longrightarrow> ln (R0 / R) = 0 \<longleftrightarrow> R0 = (R::real)"
  by auto

text \<open>
  C5: the strength estimator returns a number in \<open>[1, 60]\<close>. When the gap and both
  retentions are positive it is the quotient \<open>(t - t0) / ln (R0 / R)\<close> clamped to
  \<open>[1, 60]\<close>; for equal retentions the divisor is \<^verbatim>\<open>Math.log(1) = 0\<close>, the quotient
  is \<^verbatim>\<open>Infinity\<close> and the clamp gives 60. When a guard fails it is the default 5.
\<close>

theorem calculateLearningStrength_range:
  "(\<exists>r. calculateLearningStrength t t0 R0 R = Num r \<and> 1 \<le> r \<and> r \<le> 60) \<and>
   (0 < t - t0 \<and> 0 < R0 \<and> 0 < R \<and> R0 \<noteq> R \<longrightarrow>
      calculateLearningStrength t t0 R0 R = Num (max 1 (min 60 ((t - t0) / ln (R0 / R))))) \<and>
   (0 < t - t0 \<and> 0 < R0 \<and> 0 < R \<and> R0 = R \<longrightarrow>
      js_div (t - t0) (ln (R0 / R)) = Infinity \<and> calculateLearningStrength t t0 R0 R = Num 60) \<and>
   (t - t0 \<le> 0 \<or> R0 \<le> 0 \<or> R \<le> 0 \<or> R0 / R \<le> 0 \<longrightarrow>
      calculateLearningStrength t t0 R0 R = Num 5)"
proof -
  have guard: "calculateLearningStrength t t0 R0 R = Num 5"
    if "t - t0 \<le> 0 \<or> R0 \<le> 0 \<or> R \<le> 0 \<or> R0 / R \<le> 0"
    using that by (auto simp: calculateLearningStrength_def Let_def)
  have fin: "calculateLearningStrength t t0 R0 R = Num (max 1 (min 60 ((t - t0) / ln (R0 / R))))"
    if "0 < t - t0" "0 < R0" "0 < R" "R0 \<noteq> R"
  proof -
    from that have pos: "\<not> R0 / R \<le> 0" by (simp add: not_le)
    from that have nz: "ln (R0 / R) \<noteq> 0" by (simp add: ln_ratio_zero_iff)
    from that pos nz show ?thesis
      by (simp add: calculateLearningStrength_def Let_def js_div_def del: ln_eq_zero_iff)
  qed
  have inf: "js_div (t - t0) (ln (R0 / R)) = Infinity \<and> calculateLearningStrength t t0 R0 R = Num 60"
    if "0 < t - t0" "0 < R0" "0 < R" "R0 = R"
    using that by (simp add: calculateLearningStrength_def Let_def js_div_def)
  have "\<exists>r. calculateLearningStrength t t0 R0 R = Num r \<and> 1 \<le> r \<and> r \<le> 60"
  proof (cases "t - t0 \<le> 0 \<or> R0 \<le> 0 \<or> R \<le> 0")
    case True
    then have "calculateLearningStrength t t0 R0 R = Num 5" using guard by blast
    then show ?thesis by simp
  next
    case False
    show ?thesis
    proof (cases "R0 = R")
      case True
      with False have "calculateLearningStrength t t0 R0 R = Num 60" using inf by simp
      then show ?thesis by simp
    next
      case neq: False
      with False have "calculateLearningStrength t t0 R0 R
          = Num (max 1 (min 60 ((t - t0) / ln (R0 / R))))"
        using fin by simp
      then show ?thesis by simp
    qed
  qed
  then show ?thesis using guard fin inf by blast
qed

theorem calculateLearningStrength_range_witness:
  "calculateLearningStrength 10 0 95 60 = Num (max 1 (min 60 (10 / ln (95 / 60)))) \<and>
   calculateLearningStrength 10 0 60 60 = Num 60 \<and>
   calculateLearningStrength 0 0 95 60 = Num 5"
  using calculateLearningStrength_range [of 10 0 95 60]
    calculateLearningStrength_range [of 10 0 60 60]
    calculateLearningStrength_range [of 0 0 95 60]
  by simp

text \<open>
  C6: the scheduler returns an integer that is at least 1, for every strength and
  threshold: \<open>max 1 (round (- S * ln (threshold / 100)))\<close> for a positive threshold,
  and 1 otherwise.
\<close>

theorem calculateNextReviewDays_ge_1:
  "1 \<le> calculateNextReviewDays S threshold \<and>
   (0 < threshold \<longrightarrow>
      calculateNextReviewDays S threshold = max 1 (Math_round (- S * ln (threshold / 100)))) \<and>
   (threshold \<le> 0 \<longrightarrow> calculateNextReviewDays S threshold = 1) \<and>
   1 \<le> calculateNextReviewDays S 40"
  by (simp add: calculateNextReviewDays_def Let_def)

theorem calculateNextReviewDays_ge_1_witness:
  "calculateNextReviewDays 5 0 = 1 \<and> 1 \<le> calculateNextReviewDays (- 3) 40 \<and>
   calculateNextReviewDays 5 40 = max 1 (Math_round (- 5 * ln (40 / 100)))"
  using calculateNextReviewDays_ge_1 [of 5 0] calculateNextReviewDays_ge_1 [of "- 3" 40]
    calculateNextReviewDays_ge_1 [of 5 40]
  by simp

text \<open>
  C8: with no attempt history the update returns the default strength 5 and the
  retention mapped from the score; a first attempt with score 95 gives strength 5,
  retention 95, and the next review 5 days later.
\<close>

theorem updateLearningStrength_first:
  "(h = None \<or> h = Some [] \<longrightarrow>
      upd_S (updateLearningStrength now h s) = Num 5 \<and>
      upd_retention (updateLearningStrength now h s) = scoreToRetention s \<and>
      upd_firstAttempt (updateLearningStrength now h s) = Some True) \<and>
   upd_S (updateLearningStrength now (Some []) 95) = Num 5 \<and>
   upd_retention (updateLearningStrength now (Some []) 95) = 95 \<and>
   calculateNextReviewDays 5 40 = max 1 (Math_round (- 5 * ln (0.4))) \<and>
   calculateNextReviewDays 5 40 = 5"
proof -
  have "calculateNextReviewDays 5 40 = max 1 (Math_round (- 5 * ln (0.4)))"
    by (simp add: calculateNextReviewDays_def Let_def)
  then show ?thesis
    using days_default_5
    by (auto simp: updateLearningStrength_def Let_def scoreToRetention_def)
qed

theorem updateLearningStrength_first_witness:
  "upd_S (updateLearningStrength 0 None 40) = Num 5 \<and>
   upd_retention (updateLearningStrength 0 None 40) = 20 \<and>
   upd_firstAttempt (updateLearningStrength 0 (Some []) 40) = Some True"
  using updateLearningStrength_first [of None 0 40] updateLearningStrength_first [of "Some []" 0 40]
  by (simp add: scoreToRetention_def)

subsection \<open>Round trip of the scheduler through the decay model\<close>

lemma calculateRetention_nonneg_time:
  assumes "0 < S" "0 \<le> t"
  shows "calculateRetention t S = 100 * exp (- t / S)"
proof -
  from assms have "- t / S \<le> 0" by (simp add: divide_nonpos_pos)
  then have "exp (- t / S) \<le> 1" by simp
  then show ?thesis
    using assms(1) by (simp add: calculateRetention_pos min_def)
qed

lemma exp_minus_ln_5_2: "exp (- ln (5 / 2 :: real)) = 2 / 5"
  by (simp add: exp_minus)

lemma days_40: "calculateNextReviewDays S 40 = max 1 (Math_round (S * ln (5 / 2)))"
  by (simp add: calculateNextReviewDays_def Let_def ln_2_5)

lemma retention_shift:
  assumes "0 < S" "0 \<le> d"
  shows "calculateRetention d S = 40 * exp (- (d - S * ln (5 / 2)) / S)"
proof -
  from assms have "- (d - S * ln (5 / 2)) / S = - d / S + ln (5 / 2)"
    by (simp add: field_simps)
  then have "exp (- (d - S * ln (5 / 2)) / S) = exp (- d / S + ln (5 / 2))"
    by (simp only:)
  also have "\<dots> = exp (- d / S) * exp (ln (5 / 2))"
    by (rule exp_add)
  also have "exp (ln (5 / 2 :: real)) = 5 / 2"
    by simp
  finally have "40 * exp (- (d - S * ln (5 / 2)) / S) = 100 * exp (- d / S)"
    by simp
  then show ?thesis
    using assms by (simp only: calculateRetention_nonneg_time)
qed

text \<open>
  C9, as the code has it: for \<open>S > 0\<close> the retention at the exact crossing time
  \<open>- S * ln (40 / 100)\<close> is 40, and at the scheduled day \<open>d\<close> it is 40 times
  \<open>exp (- (d - crossing) / S)\<close>. When the crossing time is at least half a day (as for
  every \<open>S \<ge> 1\<close>) the day is within half a day of it and the retention lies between
  \<open>40 * exp (- 1 / (2 * S))\<close> and \<open>40 * exp (1 / (2 * S))\<close>; otherwise the floor gives
  day 1 and the retention \<open>100 * exp (- 1 / S)\<close> is below 40. For \<open>S \<le> 0\<close> the
  retention after the scheduled day is 0.
\<close>

theorem roundtrip_threshold:
  "(0 < S \<longrightarrow>
      calculateRetention (- S * ln (40 / 100)) S = 40 \<and>
      calculateRetention (real_of_int (calculateNextReviewDays S 40)) S
        = 40 * exp (- (real_of_int (calculateNextReviewDays S 40) - (- S * ln (40 / 100))) / S) \<and>
      (1 / 2 \<le> - S * ln (40 / 100) \<longrightarrow>
         \<bar>real_of_int (calculateNextReviewDays S 40) - (- S * ln (40 / 100))\<bar> \<le> 1 / 2 \<and>
         40 * exp (- 1 / (2 * S)) \<le> calculateRetention (real_of_int (calculateNextReviewDays S 40)) S \<and>
         calculateRetention (real_of_int (calculateNextReviewDays S 40)) S \<le> 40 * exp (1 / (2 * S))) \<and>
      (- S * ln (40 / 100) < 1 / 2 \<longrightarrow>
         calculateNextReviewDays S 40 = 1 \<and>
         calculateRetention (real_of_int (calculateNextReviewDays S 40)) S = 100 * exp (- 1 / S) \<and>
         calculateRetention (real_of_int (calculateNextReviewDays S 40)) S < 40)) \<and>
   (1 \<le> S \<longrightarrow> 1 / 2 \<le> - S * ln (40 / 100)) \<and>
   (S \<le> 0 \<longrightarrow> calculateRetention (real_of_int (calculateNextReviewDays S 40)) S = 0)"
proof -
  define L :: real where "L = ln (5 / 2)"
  define d where "d = real_of_int (calculateNextReviewDays S 40)"
  have tstar: "- S * ln (40 / 100) = S * L"
    using ln_2_5 by (simp add: L_def)
  have L_ge: "9 / 10 \<le> L"
    using ln_5_2_bounds(1) by (simp add: L_def)
  have d_ge: "1 \<le> d"
    by (simp add: d_def days_40)
  have d_eq: "d = real_of_int (max 1 (Math_round (S * L)))"
    by (simp add: d_def days_40 L_def)
  have shift: "calculateRetention d S = 40 * exp (- (d - S * L) / S)" if "0 < S"
    using that d_ge retention_shift [of S d] by (simp add: L_def)
  have exact: "calculateRetention (S * L) S = 40" if "0 < S"
  proof -
    from that L_ge have "0 \<le> S * L" by simp
    then have "calculateRetention (S * L) S = 100 * exp (- (S * L) / S)"
      using that by (rule calculateRetention_nonneg_time [rotated])
    also from that have "- (S * L) / S = - L" by simp
    finally show ?thesis by (simp add: L_def exp_minus_ln_5_2)
  qed
  have near: "\<bar>d - S * L\<bar> \<le> 1 / 2 \<and> 40 * exp (- 1 / (2 * S)) \<le> calculateRetention d S
      \<and> calculateRetention d S \<le> 40 * exp (1 / (2 * S))"
    if "0 < S" "1 / 2 \<le> S * L"
  proof -
    from that(2) have "1 \<le> Math_round (S * L)" by (simp add: Math_round_ge_1_iff)
    then have "d = real_of_int (Math_round (S * L))" by (simp add: d_eq max_def)
    then have close: "\<bar>d - S * L\<bar> \<le> 1 / 2" using Math_round_near [of "S * L"] by simp
    from close have "- (1 / 2) \<le> - (d - S * L)" "- (d - S * L) \<le> 1 / 2" by linarith+
    with that(1) have "- (1 / 2) / S \<le> - (d - S * L) / S" "- (d - S * L) / S \<le> (1 / 2) / S"
      by (simp_all only: divide_right_mono less_imp_le)
    then have "exp (- 1 / (2 * S)) \<le> exp (- (d - S * L) / S)"
      "exp (- (d - S * L) / S) \<le> exp (1 / (2 * S))"
      by simp_all
    with close shift [OF that(1)] show ?thesis by simp
  qed
  have floored: "calculateNextReviewDays S 40 = 1 \<and> calculateRetention d S = 100 * exp (- 1 / S)
      \<and> calculateRetention d S < 40"
    if "0 < S" "S * L < 1 / 2"
  proof -
    from that(2) have "\<not> 1 \<le> Math_round (S * L)" by (simp add: Math_round_ge_1_iff)
    then have one: "calculateNextReviewDays S 40 = 1" by (simp add: days_40 L_def max_def)
    then have d1: "d = 1" by (simp add: d_def)
    have ret: "calculateRetention d S = 100 * exp (- 1 / S)"
      using that(1) d1 calculateRetention_nonneg_time [of S 1] by simp
    from that L_ge have "S * L < 1" by linarith
    with that(1) have "L < 1 / S" by (simp add: pos_less_divide_eq mult.commute)
    then have "- 1 / S < - L" by simp
    then have "exp (- 1 / S) < exp (- L)" by (simp only: exp_less_cancel_iff)
    then have "exp (- 1 / S) < 2 / 5" by (simp only: L_def exp_minus_ln_5_2)
    with one ret show ?thesis by simp
  qed
  have strong: "1 / 2 \<le> S * L" if "1 \<le> S"
  proof -
    from that L_ge have "1 * (9 / 10) \<le> S * L" by (intro mult_mono) simp_all
    then show ?thesis by simp
  qed
  have neg: "calculateRetention d S = 0" if "S \<le> 0"
    using that by (simp add: calculateRetention_def)
  show ?thesis
    unfolding tstar d_def [symmetric]
    using shift exact near floored strong neg by blast
qed

theorem roundtrip_threshold_witness:
  "calculateRetention (- 5 * ln (40 / 100)) 5 = 40 \<and>
   40 * exp (- 1 / (2 * 5)) \<le> calculateRetention (real_of_int (calculateNextReviewDays 5 40)) 5 \<and>
   calculateRetention (real_of_int (calculateNextReviewDays 5 40)) 5 \<le> 40 * exp (1 / (2 * 5)) \<and>
   calculateNextReviewDays (2 / 5) 40 = 1 \<and>
   calculateRetention (real_of_int (calculateNextReviewDays (2 / 5) 40)) (2 / 5) < 40 \<and>
   calculateRetention (real_of_int (calculateNextReviewDays 0 40)) 0 = 0"
proof -
  note r5 = roundtrip_threshold [of 5]
  have a5: "(0::real) < 5" "(1::real) \<le> 5" by simp_all
  from r5 a5 have b5: "1 / 2 \<le> - 5 * ln (40 / 100 :: real)" by blast
  note r25 = roundtrip_threshold [of "2 / 5"]
  have a25: "(0::real) < 2 / 5" by simp
  have b25: "- (2 / 5) * ln (40 / 100 :: real) < 1 / 2"
    using ln_5_2_bounds(2) by (simp add: ln_2_5)
  note r0 = roundtrip_threshold [of 0]
  have a0: "(0::real) \<le> 0" by simp
  from r5 a5 b5 r25 a25 b25 r0 a0 show ?thesis by blast
qed

text \<open>
  C9 as stated, for every strength: at strength 0 and at strength \<open>- 5\<close> the scheduled
  day is 1 and the retention there is 0, not near 40.
\<close>

theorem roundtrip_nonpositive_counterexample:
  "calculateNextReviewDays 0 40 = 1 \<and>
   calculateRetention (real_of_int (calculateNextReviewDays 0 40)) 0 = 0 \<and>
   calculateNextReviewDays (- 5) 40 = 1 \<and>
   calculateRetention (real_of_int (calculateNextReviewDays (- 5) 40)) (- 5) = 0"
proof -
  have "calculateNextReviewDays 0 40 = 1"
    by (simp add: calculateNextReviewDays_def Let_def Math_round_def)
  moreover have "Math_round (- (- 5) * ln (40 / 100)) \<le> 0"
  proof -
    have "ln (2 / 5 :: real) < 0" by simp
    then have "5 * ln (2 / 5 :: real) + 1 / 2 < 1" by linarith
    then show ?thesis unfolding Math_round_def by (simp add: floor_le_iff)
  qed
  then have "calculateNextReviewDays (- 5) 40 = 1"
    by (simp add: calculateNextReviewDays_def Let_def max_def)
  ultimately show ?thesis
    by (simp add: calculateRetention_def)
qed

subsection \<open>Score mapping\<close>

text \<open>C7: the score mapping is the fixed step function.\<close>

theorem scoreToRetention_bands:
  "(90 \<le> s \<longrightarrow> scoreToRetention s = 95) \<and>
   (80 \<le> s \<and> s < 90 \<longrightarrow> scoreToRetention s = 85) \<and>
   (70 \<le> s \<and> s < 80 \<longrightarrow> scoreToRetention s = 75) \<and>
   (60 \<le> s \<and> s < 70 \<longrightarrow> scoreToRetention s = 60) \<and>
   (50 \<le> s \<and> s < 60 \<longrightarrow> scoreToRetention s = 45) \<and>
   (s < 50 \<longrightarrow> scoreToRetention s = max 20 (s * 0.4)) \<and>
   scoreToRetention 40 = 20"
  by (simp add: scoreToRetention_def)

theorem scoreToRetention_bands_witness:
  "scoreToRetention 95 = 95 \<and> scoreToRetention 80 = 85 \<and> scoreToRetention 75 = 75 \<and>
   scoreToRetention 60 = 60 \<and> scoreToRetention 59 = 45 \<and> scoreToRetention 10 = 20"
  using scoreToRetention_bands [of 95] scoreToRetention_bands [of 80]
    scoreToRetention_bands [of 75] scoreToRetention_bands [of 60]
    scoreToRetention_bands [of 59] scoreToRetention_bands [of 10]
  by simp

subsection \<open>Recommendation ranker\<close>

lemma recommend_new:
  assumes "lastAttempt q = None"
  shows "recommend now q =
    \<lparr>quizId = quizId q, lastAttempt = None, priority = High, reason = New_quiz_never_attempted,
     daysUntilDue = Num 0, isDue = True, retention = None\<rparr>"
  using assms by (simp add: recommend_def)

lemma recommend_lastAttempt [simp]: "lastAttempt (recommend now q) = lastAttempt q"
  by (simp add: recommend_def Let_def split: option.split prod.split)

lemma recommend_quizId [simp]: "quizId (recommend now q) = quizId q"
  by (simp add: recommend_def Let_def split: option.split prod.split)

lemma recommend_dated:
  assumes "lastAttempt q = Some la" "nextReviewDate la = Some d"
  shows "daysUntilDue (recommend now q) = Num (max 0 (real_of_int (d - now) / ms_per_day))"
    and "isDue (recommend now q) = (real_of_int (d - now) / ms_per_day \<le> 0)"
    and "priority (recommend now q) =
      (if real_of_int (d - now) / ms_per_day \<le> 0 then High
       else if real_of_int (d - now) / ms_per_day \<le> 1 then Medium
       else if score la < 70 then High else Low)"
    and "reason (recommend now q) =
      (if real_of_int (d - now) / ms_per_day \<le> 0
         then Overdue_by (Num (real_of_int (Math_round \<bar>real_of_int (d - now) / ms_per_day\<bar>)))
       else if real_of_int (d - now) / ms_per_day \<le> 1 then Due_soon
       else if score la < 70 then Low_score_needs_reinforcement else Review_upcoming)"
  using assms by (simp_all add: recommend_def rawDaysUntilDue_def Let_def)

lemma recommend_undated:
  assumes "lastAttempt q = Some la" "nextReviewDate la = None"
  shows "daysUntilDue (recommend now q) = NaN"
    and "isDue (recommend now q) = False"
    and "priority (recommend now q) = (if score la < 70 then High else Low)"
    and "reason (recommend now q) =
      (if score la < 70 then Low_score_needs_reinforcement else Review_upcoming)"
  using assms by (simp_all add: recommend_def rawDaysUntilDue_def Let_def)

lemma review_date_of:
  assumes "has_review_date q" "lastAttempt q = Some la"
  obtains d where "nextReviewDate la = Some d"
  using assms by (auto simp: has_review_date_def)

lemma recommend_finite:
  assumes "has_review_date q"
  shows "\<exists>v. daysUntilDue (recommend now q) = Num v \<and> 0 \<le> v"
proof (cases "lastAttempt q")
  case None
  then show ?thesis by (simp add: recommend_new)
next
  case (Some la)
  with assms obtain d where "nextReviewDate la = Some d"
    by (auto simp: has_review_date_def)
  with Some show ?thesis by (simp add: recommend_dated)
qed

lemma not_after_compareRecs:
  assumes "daysUntilDue a = Num va" "daysUntilDue b = Num vb"
  shows "not_after (compareRecs a b) \<longleftrightarrow> rec_key a \<le> rec_key b"
  using assms by (auto simp: compareRecs_def rec_key_def Let_def)

lemma insert_by_compareRecs:
  assumes "\<exists>v. daysUntilDue x = Num v" "\<forall>y \<in> set ys. \<exists>v. daysUntilDue y = Num v"
  shows "insert_by compareRecs x ys = insort_key rec_key x ys"
  using assms by (induction ys) (auto simp: not_after_compareRecs)

lemma js_sort_compareRecs:
  assumes "\<forall>y \<in> set xs. \<exists>v. daysUntilDue y = Num v"
  shows "js_sort compareRecs xs = sort_key rec_key xs"
  using assms
proof (induction xs)
  case Nil
  then show ?case by (simp add: js_sort_def)
next
  case (Cons x xs)
  then have "js_sort compareRecs xs = sort_key rec_key xs" by simp
  moreover have "js_sort compareRecs (x # xs) = insert_by compareRecs x (js_sort compareRecs xs)"
    by (simp add: js_sort_def)
  moreover from Cons.prems have "\<forall>y \<in> set (sort_key rec_key xs). \<exists>v. daysUntilDue y = Num v"
    by simp
  ultimately show ?case
    using Cons.prems by (simp add: insert_by_compareRecs)
qed

lemma getQuizRecommendations_sort_key:
  assumes "\<forall>q \<in> set qs. has_review_date q"
  shows "getQuizRecommendations now qs = sort_key rec_key (map (recommend now) qs)"
proof -
  from assms have "\<forall>y \<in> set (map (recommend now) qs). \<exists>v. daysUntilDue y = Num v"
    using recommend_finite by fastforce
  then show ?thesis
    by (simp only: getQuizRecommendations_def js_sort_compareRecs)
qed

lemma set_insert_by: "set (insert_by cmp x ys) = insert x (set ys)"
  by (induction ys) auto

lemma set_js_sort: "set (js_sort cmp xs) = set xs"
  by (induction xs) (simp_all add: js_sort_def set_insert_by)

lemma set_getQuizRecommendations:
  "set (getQuizRecommendations now qs) = recommend now ` set qs"
  by (simp add: getQuizRecommendations_def set_js_sort)

lemma rec_key_new: "lastAttempt q = None \<Longrightarrow> rec_key (recommend now q) = (0, 0)"
  by (simp add: recommend_new rec_key_def)

lemma rec_key_not_due:
  assumes "has_review_date q" "lastAttempt q = Some la" "\<not> isDue (recommend now q)"
  shows "(0, 0) < rec_key (recommend now q)"
proof -
  from assms obtain d where "nextReviewDate la = Some d"
    by (auto simp: has_review_date_def)
  with assms show ?thesis
    by (auto simp: rec_key_def recommend_dated)
qed

lemma rec_key_due_iff:
  assumes "has_review_date q"
  shows "isDue (recommend now q) \<longleftrightarrow> rec_key (recommend now q) = (0, 0)"
proof (cases "lastAttempt q")
  case None
  then show ?thesis by (simp add: recommend_new rec_key_def)
next
  case (Some la)
  with assms obtain d where "nextReviewDate la = Some d"
    by (auto simp: has_review_date_def)
  with Some show ?thesis by (auto simp: rec_key_def recommend_dated max_def)
qed

lemma rec_key_le_iff:
  assumes "daysUntilDue a = Num va" "daysUntilDue b = Num vb"
  shows "rec_key a \<le> rec_key b \<longleftrightarrow>
     priorityOrder (priority a) < priorityOrder (priority b) \<or>
     (priorityOrder (priority a) = priorityOrder (priority b) \<and>
      js_le (daysUntilDue a) (daysUntilDue b))"
  using assms by (auto simp: rec_key_def)

lemma priorityOrder_inj: "priorityOrder p = priorityOrder p' \<longleftrightarrow> p = p'"
  by (cases p; cases p') simp_all

lemma filter_isDue_recommend:
  assumes "\<forall>q \<in> set qs. has_review_date q"
  shows "filter isDue (map (recommend now) qs)
     = filter (\<lambda>r. rec_key r = (0, 0)) (map (recommend now) qs)"
  using assms by (induction qs) (simp_all add: rec_key_due_iff)


lemma filter_key_stable:
  assumes "\<forall>q \<in> set qs. has_review_date q"
  shows "filter (\<lambda>r. priority r = p \<and> daysUntilDue r = d) (getQuizRecommendations now qs)
       = filter (\<lambda>r. priority r = p \<and> daysUntilDue r = d) (map (recommend now) qs)"
proof -
  let ?xs = "map (recommend now) qs"
  let ?out = "getQuizRecommendations now qs"
  have fin: "\<exists>v. daysUntilDue r = Num v" if "r \<in> set ?xs" for r
    using that assms recommend_finite by fastforce
  have out: "?out = sort_key rec_key ?xs"
    using assms by (rule getQuizRecommendations_sort_key)
  have same: "set ?out = set ?xs"
    by (simp add: set_getQuizRecommendations)
  show ?thesis
  proof (cases d)
    case (Num v)
    have eq: "(priority r = p \<and> daysUntilDue r = d) \<longleftrightarrow> rec_key r = (priorityOrder p, v)"
      if "r \<in> set ?xs" for r
      using fin [OF that] Num by (auto simp: rec_key_def priorityOrder_inj)
    have "filter (\<lambda>r. priority r = p \<and> daysUntilDue r = d) ?out
        = filter (\<lambda>r. rec_key r = (priorityOrder p, v)) ?out"
      using eq same by (intro filter_cong) auto
    also have "\<dots> = filter (\<lambda>r. rec_key r = (priorityOrder p, v)) ?xs"
      unfolding out by (rule sort_key_stable)
    also have "\<dots> = filter (\<lambda>r. priority r = p \<and> daysUntilDue r = d) ?xs"
      using eq by (intro filter_cong) auto
    finally show ?thesis .
  next
    case Infinity
    then have "\<not> (priority r = p \<and> daysUntilDue r = d)" if "r \<in> set ?xs" for r
      using fin [OF that] by auto
    then show ?thesis using same by (simp add: filter_False)
  next
    case NegInfinity
    then have "\<not> (priority r = p \<and> daysUntilDue r = d)" if "r \<in> set ?xs" for r
      using fin [OF that] by auto
    then show ?thesis using same by (simp add: filter_False)
  next
    case NaN
    then have "\<not> (priority r = p \<and> daysUntilDue r = d)" if "r \<in> set ?xs" for r
      using fin [OF that] by auto
    then show ?thesis using same by (simp add: filter_False)
  qed
qed

text \<open>
  C1, as the code has it, for quizzes whose last attempt carries a review date: the
  output is ordered by priority rank and then by the returned \<open>daysUntilDue\<close>, which
  is the signed distance clamped at 0. It is a permutation of the mapped input,
  elements with equal priority and \<open>daysUntilDue\<close> keep their input order, every due
  quiz (overdue or never attempted) has rank 0 and \<open>daysUntilDue = 0\<close>, and so the due
  quizzes keep their input order among themselves. No returned \<open>daysUntilDue\<close> is
  negative.
\<close>

theorem getQuizRecommendations_sorted_stable:
  "\<forall>q \<in> set qs. has_review_date q \<Longrightarrow>
   sorted_wrt (\<lambda>a b. priorityOrder (priority a) < priorityOrder (priority b) \<or>
       (priorityOrder (priority a) = priorityOrder (priority b) \<and>
        js_le (daysUntilDue a) (daysUntilDue b)))
     (getQuizRecommendations now qs) \<and>
   mset (getQuizRecommendations now qs) = mset (map (recommend now) qs) \<and>
   (\<forall>p d. filter (\<lambda>r. priority r = p \<and> daysUntilDue r = d) (getQuizRecommendations now qs)
        = filter (\<lambda>r. priority r = p \<and> daysUntilDue r = d) (map (recommend now) qs)) \<and>
   (\<forall>r \<in> set (getQuizRecommendations now qs).
      js_le (Num 0) (daysUntilDue r) \<and>
      (isDue r \<longrightarrow> priority r = High \<and> daysUntilDue r = Num 0)) \<and>
   filter isDue (getQuizRecommendations now qs) = filter isDue (map (recommend now) qs)"
proof -
  assume dated: "\<forall>q \<in> set qs. has_review_date q"
  let ?out = "getQuizRecommendations now qs"
  let ?xs = "map (recommend now) qs"
  have out: "?out = sort_key rec_key ?xs"
    using dated by (rule getQuizRecommendations_sort_key)
  have fin: "\<exists>v. daysUntilDue r = Num v \<and> 0 \<le> v" if "r \<in> set ?out" for r
    using that dated recommend_finite by (fastforce simp: set_getQuizRecommendations)
  have "sorted (map rec_key ?out)"
    by (simp add: out)
  then have srt: "sorted_wrt (\<lambda>a b. rec_key a \<le> rec_key b) ?out"
    by (simp only: sorted_map)
  have c1: "sorted_wrt (\<lambda>a b. priorityOrder (priority a) < priorityOrder (priority b) \<or>
       (priorityOrder (priority a) = priorityOrder (priority b) \<and>
        js_le (daysUntilDue a) (daysUntilDue b))) ?out"
  proof (rule sorted_wrt_mono_rel [OF _ srt])
    fix a b assume "a \<in> set ?out" "b \<in> set ?out" "rec_key a \<le> rec_key b"
    moreover from this obtain va vb where "daysUntilDue a = Num va" "daysUntilDue b = Num vb"
      using fin by blast
    ultimately show "priorityOrder (priority a) < priorityOrder (priority b) \<or>
       (priorityOrder (priority a) = priorityOrder (priority b) \<and>
        js_le (daysUntilDue a) (daysUntilDue b))"
      using rec_key_le_iff by blast
  qed
  have c2: "mset ?out = mset ?xs"
    by (simp add: out)
  have c3: "filter (\<lambda>r. priority r = p \<and> daysUntilDue r = d) ?out
      = filter (\<lambda>r. priority r = p \<and> daysUntilDue r = d) ?xs" for p d
    using dated by (rule filter_key_stable)
  have c4: "js_le (Num 0) (daysUntilDue r) \<and>
      (isDue r \<longrightarrow> priority r = High \<and> daysUntilDue r = Num 0)"
    if "r \<in> set ?out" for r
  proof -
    from that obtain q where q: "q \<in> set qs" and r: "r = recommend now q"
      by (auto simp: set_getQuizRecommendations)
    show ?thesis
    proof (cases "lastAttempt q")
      case None
      then show ?thesis by (simp add: r recommend_new)
    next
      case (Some la)
      from q dated have "has_review_date q" by blast
      then obtain d where "nextReviewDate la = Some d"
        using Some by (rule review_date_of)
      with Some show ?thesis by (simp add: r recommend_dated)
    qed
  qed
  have "filter isDue ?out = sort_key rec_key (filter isDue ?xs)"
    unfolding out by (rule filter_sort)
  also have "\<dots> = sort_key rec_key (filter (\<lambda>r. rec_key r = (0, 0)) ?xs)"
    using dated by (simp only: filter_isDue_recommend)
  also have "\<dots> = filter (\<lambda>r. rec_key r = (0, 0)) (sort_key rec_key ?xs)"
    by (rule filter_sort [symmetric])
  also have "\<dots> = filter (\<lambda>r. rec_key r = (0, 0)) ?xs"
    by (rule sort_key_stable)
  also have "\<dots> = filter isDue ?xs"
    using dated by (rule filter_isDue_recommend [symmetric])
  finally have c5: "filter isDue ?out = filter isDue ?xs" .
  from c1 c2 c3 c4 c5 show ?thesis by blast
qed


text \<open>
  Among quizzes whose last attempt carries a review date, a quiz never attempted
  stands before every attempted quiz that is not due.
\<close>

lemma never_attempted_first_when_dated:
  assumes dated: "\<forall>q \<in> set qs. has_review_date q"
    and ij: "i < length (getQuizRecommendations now qs)" "j < length (getQuizRecommendations now qs)"
    and new: "lastAttempt (getQuizRecommendations now qs ! i) = None"
    and old: "lastAttempt (getQuizRecommendations now qs ! j) \<noteq> None"
      "\<not> isDue (getQuizRecommendations now qs ! j)"
  shows "i < j"
proof (rule ccontr)
  let ?out = "getQuizRecommendations now qs"
  assume "\<not> i < j"
  then have ji: "j \<le> i" by simp
  have srt: "sorted (map rec_key ?out)"
    using dated by (simp add: getQuizRecommendations_sort_key)
  from ij(1) have "?out ! i \<in> recommend now ` set qs"
    using set_getQuizRecommendations nth_mem by blast
  then obtain q where q: "?out ! i = recommend now q" by blast
  from ij(2) have "?out ! j \<in> recommend now ` set qs"
    using set_getQuizRecommendations nth_mem by blast
  then obtain q' where q': "q' \<in> set qs" "?out ! j = recommend now q'" by blast
  from new q have ki: "rec_key (?out ! i) = (0, 0)"
    by (simp add: rec_key_new)
  from old q' obtain la where "lastAttempt q' = Some la" by auto
  moreover from q'(1) dated have "has_review_date q'" by blast
  ultimately have kj: "(0, 0) < rec_key (?out ! j)"
    using old(2) q'(2) by (simp add: rec_key_not_due)
  from srt ji ij(1) have "map rec_key ?out ! j \<le> map rec_key ?out ! i"
    by (intro sorted_nth_mono) simp_all
  with ij have "rec_key (?out ! j) \<le> rec_key (?out ! i)" by simp
  with ki kj show False by simp
qed

text \<open>
  Two overdue quizzes at day 10: the first was due at day 9, the second at day 5.
  Both get the key \<open>(0, 0)\<close> and keep their input order.
\<close>

lemma two_overdue_ranking:
  "getQuizRecommendations day10 [quiz_due_day9, quiz_due_day5]
   = [recommend day10 quiz_due_day9, recommend day10 quiz_due_day5]"
  by (simp add: getQuizRecommendations_def js_sort_def compareRecs_def recommend_dated
      ms_per_day_def)

text \<open>
  A quiz attempted with score 50 and due in two days, then a quiz never attempted:
  the second is ranked first.
\<close>

lemma new_after_low_score_ranking:
  "getQuizRecommendations 0 [quiz_low_score, quiz_new]
   = [recommend 0 quiz_new, recommend 0 quiz_low_score]"
  by (simp add: getQuizRecommendations_def js_sort_def compareRecs_def recommend_dated
      recommend_new ms_per_day_def)

text \<open>
  A quiz attempted with score 50 whose attempt has no review date, then a quiz never
  attempted: both have priority high, the comparator gives NaN, and the input order
  stays.
\<close>

lemma undated_then_new_ranking:
  "getQuizRecommendations day10 [quiz_no_review_date, quiz_new]
   = [recommend day10 quiz_no_review_date, recommend day10 quiz_new]"
  by (simp add: getQuizRecommendations_def js_sort_def compareRecs_def recommend_undated
      recommend_new)

theorem getQuizRecommendations_sorted_stable_witness:
  "has_review_date quiz_low_score \<and> has_review_date quiz_new \<and>
   recommend 0 quiz_new \<in> set (getQuizRecommendations 0 [quiz_low_score, quiz_new]) \<and>
   isDue (recommend 0 quiz_new) \<and>
   priority (recommend 0 quiz_new) = High \<and>
   daysUntilDue (recommend 0 quiz_new) = Num 0 \<and>
   filter isDue (getQuizRecommendations 0 [quiz_low_score, quiz_new]) = [recommend 0 quiz_new]"
proof -
  let ?q1 = "quiz_low_score"
  let ?q2 = "quiz_new"
  have dated: "\<forall>q \<in> set [?q1, ?q2]. has_review_date q"
    by (simp add: has_review_date_def)
  note t = getQuizRecommendations_sorted_stable [OF dated, of 0]
  have mem: "recommend 0 ?q2 \<in> set (getQuizRecommendations 0 [?q1, ?q2])"
    by (simp add: set_getQuizRecommendations)
  have due: "isDue (recommend 0 ?q2)"
    by (simp add: recommend_new)
  from t mem due
  have fields: "priority (recommend 0 ?q2) = High \<and> daysUntilDue (recommend 0 ?q2) = Num 0"
    by blast
  from t have "filter isDue (getQuizRecommendations 0 [?q1, ?q2])
      = filter isDue (map (recommend 0) [?q1, ?q2])"
    by blast
  also have "\<dots> = [recommend 0 ?q2]"
    by (simp add: recommend_dated recommend_new ms_per_day_def)
  finally show ?thesis using dated mem due fields by simp
qed

text \<open>
  C1 as stated: the quiz overdue by 5 days does not come before the quiz overdue by
  1 day, and both returned \<open>daysUntilDue\<close> fields are 0, not negative.
\<close>

theorem more_overdue_not_first_counterexample:
  "rawDaysUntilDue day10 attempt_due_day9 = Num (- 1) \<and>
   rawDaysUntilDue day10 attempt_due_day5 = Num (- 5) \<and>
   map quizId (getQuizRecommendations day10 [quiz_due_day9, quiz_due_day5]) = [11, 12] \<and>
   map daysUntilDue (getQuizRecommendations day10 [quiz_due_day9, quiz_due_day5])
     = [Num 0, Num 0]"
  by (simp add: two_overdue_ranking recommend_dated rawDaysUntilDue_def ms_per_day_def)

text \<open>
  C2 at an attempt as the quiz controller records it, without the field
  \<^verbatim>\<open>nextReviewDate\<close>: the returned \<open>daysUntilDue\<close> is \<^verbatim>\<open>Math.max(0, NaN)\<close>, which is
  NaN and not at least 0, and the quiz is not due.
\<close>

theorem missing_review_date_not_clamped:
  "map daysUntilDue (getQuizRecommendations day10 [quiz_no_review_date]) = [NaN] \<and>
   map isDue (getQuizRecommendations day10 [quiz_no_review_date]) = [False] \<and>
   \<not> js_le (Num 0) NaN"
  by (simp add: getQuizRecommendations_def js_sort_def recommend_undated)

text \<open>
  C3 at the same attempt followed by a quiz never attempted: the attempted quiz is
  not due and has priority high through its low score, the comparator value is NaN,
  and the quiz never attempted stays behind it.
\<close>

theorem missing_review_date_ranked_before_new:
  "map quizId (getQuizRecommendations day10 [quiz_no_review_date, quiz_new]) = [11, 12] \<and>
   lastAttempt (getQuizRecommendations day10 [quiz_no_review_date, quiz_new] ! 0) \<noteq> None \<and>
   \<not> isDue (getQuizRecommendations day10 [quiz_no_review_date, quiz_new] ! 0) \<and>
   lastAttempt (getQuizRecommendations day10 [quiz_no_review_date, quiz_new] ! 1) = None \<and>
   compareRecs (recommend day10 quiz_no_review_date) (recommend day10 quiz_new) = NaN \<and>
   compareRecs (recommend day10 quiz_new) (recommend day10 quiz_no_review_date) = NaN"
  by (simp add: undated_then_new_ranking compareRecs_def recommend_undated recommend_new)

subsection \<open>Double arithmetic and the trend\<close>

lemma round_ties_even_near: "\<bar>real_of_int (round_ties_even y) - y\<bar> \<le> 1 / 2"
  unfolding round_ties_even_def Let_def by (auto; linarith)

lemma round_ties_even_of_int [simp]: "round_ties_even (real_of_int z) = z"
  by (simp add: round_ties_even_def)

lemma to_double_error: "\<bar>to_double x - x\<bar> \<le> \<bar>x\<bar> / 2 ^ 53"
proof (cases "x = 0")
  case True
  then show ?thesis by (simp add: to_double_def)
next
  case False
  define e where "e = \<lfloor>log 2 \<bar>x\<bar>\<rfloor>"
  define u where "u = 2 powr (real_of_int e - 52)"
  have u_pos: "0 < u" by (simp add: u_def)
  have fl: "to_double x = real_of_int (round_ties_even (x / u)) * u"
    using False by (simp add: to_double_def Let_def e_def u_def)
  have "to_double x - x = (real_of_int (round_ties_even (x / u)) - x / u) * u"
    using u_pos by (simp add: fl field_simps)
  then have "\<bar>to_double x - x\<bar> = \<bar>real_of_int (round_ties_even (x / u)) - x / u\<bar> * u"
    using u_pos by (simp add: abs_mult)
  also have "\<dots> \<le> 1 / 2 * u"
    using round_ties_even_near [of "x / u"] u_pos by (intro mult_right_mono) simp_all
  finally have 1: "\<bar>to_double x - x\<bar> \<le> u / 2" by simp
  have "real_of_int e \<le> log 2 \<bar>x\<bar>" by (simp add: e_def)
  then have "2 powr real_of_int e \<le> 2 powr log 2 \<bar>x\<bar>" by simp
  also have "\<dots> = \<bar>x\<bar>" using False by simp
  finally have 2: "2 powr real_of_int e \<le> \<bar>x\<bar>" .
  have "u = 2 powr real_of_int e / 2 ^ 52"
    by (simp add: u_def powr_diff)
  with 2 have "u \<le> \<bar>x\<bar> / 2 ^ 52" by (simp add: divide_right_mono)
  with 1 show ?thesis by simp
qed


lemma to_double_exponent:
  assumes "2 powr real_of_int k \<le> \<bar>x\<bar>" "\<bar>x\<bar> < 2 powr (real_of_int k + 1)"
  shows "to_double x
    = real_of_int (round_ties_even (x / 2 powr (real_of_int k - 52))) * 2 powr (real_of_int k - 52)"
proof -
  have "0 < (2::real) powr real_of_int k" by simp
  with assms(1) have pos: "0 < \<bar>x\<bar>" by linarith
  then have "\<lfloor>log 2 \<bar>x\<bar>\<rfloor> = k"
    using assms by (simp add: floor_log_eq_powr_iff)
  moreover from pos have "x \<noteq> 0" by auto
  ultimately show ?thesis
    by (simp add: to_double_def Let_def)
qed

lemma to_double_of_int:
  assumes "\<bar>n\<bar> < 2 ^ 53"
  shows "to_double (real_of_int n) = real_of_int n"
proof (cases "n = 0")
  case True
  then show ?thesis by (simp add: to_double_def)
next
  case False
  define x where "x = real_of_int n"
  define e where "e = \<lfloor>log 2 \<bar>x\<bar>\<rfloor>"
  have x1: "1 \<le> \<bar>x\<bar>" using False by (simp add: x_def)
  have x2: "\<bar>x\<bar> < 2 ^ 53"
  proof -
    from assms have "real_of_int \<bar>n\<bar> < real_of_int (2 ^ 53)" by (simp only: of_int_less_iff)
    then show ?thesis by (simp add: x_def)
  qed
  from x1 have bounds: "2 powr real_of_int e \<le> \<bar>x\<bar>" "\<bar>x\<bar> < 2 powr (real_of_int e + 1)"
    using floor_log_eq_powr_iff [of "\<bar>x\<bar>" 2 e] by (simp_all add: e_def)
  have e0: "0 \<le> e"
  proof (rule ccontr)
    assume "\<not> 0 \<le> e"
    then have "real_of_int e + 1 \<le> 0" by simp
    then have "(2::real) powr (real_of_int e + 1) \<le> 2 powr 0"
      by (intro powr_mono) simp_all
    with bounds(2) x1 show False by simp
  qed
  have e52: "e \<le> 52"
  proof (rule ccontr)
    assume "\<not> e \<le> 52"
    then have "(53::real) \<le> real_of_int e" by simp
    then have "(2::real) powr 53 \<le> 2 powr real_of_int e"
      by (intro powr_mono) simp_all
    moreover have "(2::real) powr 53 = 2 ^ 53"
      using powr_realpow [of 2 53] by simp
    ultimately show False using bounds(1) x2 by linarith
  qed
  define k where "k = nat (52 - e)"
  have "real_of_int e - 52 = - real k"
    using e52 by (simp add: k_def)
  then have u: "(2::real) powr (real_of_int e - 52) = 1 / 2 ^ k"
    by (simp add: powr_minus_divide powr_realpow)
  have "x / (1 / 2 ^ k) = real_of_int (n * 2 ^ k)"
    by (simp add: x_def)
  then have "round_ties_even (x / (1 / 2 ^ k)) = n * 2 ^ k"
    by (simp only: round_ties_even_of_int)
  then have "to_double x = real_of_int (n * 2 ^ k) * (1 / 2 ^ k)"
    using to_double_exponent [OF bounds] by (simp only: u)
  then show ?thesis by (simp add: x_def)
qed

lemma to_double_of_nat:
  assumes "n < 2 ^ 53"
  shows "to_double (real n) = real n"
proof -
  from assms have "\<bar>int n\<bar> < 2 ^ 53" by simp
  then have "to_double (real_of_int (int n)) = real_of_int (int n)"
    by (rule to_double_of_int)
  then show ?thesis by simp
qed


lemma round_ties_even_unique:
  assumes "\<bar>y - real_of_int z\<bar> < 1 / 2"
  shows "round_ties_even y = z"
proof -
  have "\<lfloor>y\<rfloor> = z \<or> \<lfloor>y\<rfloor> = z - 1" using assms by linarith
  then show ?thesis
  proof
    assume f: "\<lfloor>y\<rfloor> = z"
    with assms have "y - real_of_int z < 1 / 2" by linarith
    with f show ?thesis by (simp add: round_ties_even_def Let_def)
  next
    assume f: "\<lfloor>y\<rfloor> = z - 1"
    from assms have "real_of_int z - 1 / 2 < y" by linarith
    then have "y - real_of_int (z - 1) > 1 / 2" by simp
    with f show ?thesis by (simp add: round_ties_even_def Let_def)
  qed
qed

lemma round_ties_even_half:
  assumes "y = real_of_int z + 1 / 2"
  shows "round_ties_even y = (if even z then z else z + 1)"
proof -
  from assms have "\<lfloor>y\<rfloor> = z" by linarith
  with assms show ?thesis by (simp add: round_ties_even_def Let_def)
qed

lemma to_double_eval:
  assumes "2 ^ k \<le> \<bar>x\<bar>" "\<bar>x\<bar> < 2 * 2 ^ k" "k \<le> 52"
  shows "to_double x = real_of_int (round_ties_even (x * 2 ^ (52 - k))) / 2 ^ (52 - k)"
proof -
  have 1: "2 powr real_of_int (int k) \<le> \<bar>x\<bar>"
    using assms(1) by (simp add: powr_realpow)
  have 2: "\<bar>x\<bar> < 2 powr (real_of_int (int k) + 1)"
    using assms(2) by (simp add: powr_add powr_realpow)
  from assms(3) have "real k - 52 = - real (52 - k)" by simp
  then have u: "(2::real) powr (real k - 52) = 1 / 2 ^ (52 - k)"
    by (simp only: powr_minus_divide powr_realpow [OF zero_less_numeral])
  have "to_double x = real_of_int (round_ties_even (x / 2 powr (real k - 52))) * 2 powr (real k - 52)"
    using to_double_exponent [OF 1 2] by simp
  then show ?thesis
    by (simp only: u) simp
qed

lemma tie_recent: "to_double (200 / 3) = 4691249611844267 / 2 ^ 46"
proof -
  have "round_ties_even (200 / 3 * 2 ^ (52 - 6)) = 4691249611844267"
    by (rule round_ties_even_unique) simp
  then show ?thesis
    using to_double_eval [of 6 "200 / 3"] by simp
qed

lemma tie_older: "to_double (185 / 3) = 8678811781911893 / 2 ^ 47"
proof -
  have "round_ties_even (185 / 3 * 2 ^ (52 - 5)) = 8678811781911893"
    by (rule round_ties_even_unique) simp
  then show ?thesis
    using to_double_eval [of 5 "185 / 3"] by simp
qed

lemma tie_older_plus_5: "to_double (8678811781911893 / 2 ^ 47 + 5) = 4691249611844266 / 2 ^ 46"
proof -
  have "round_ties_even ((8678811781911893 / 2 ^ 47 + 5) * 2 ^ (52 - 6))
      = (if even (4691249611844266::int) then 4691249611844266 else 4691249611844266 + 1)"
    by (rule round_ties_even_half) simp
  then have "round_ties_even ((8678811781911893 / 2 ^ 47 + 5) * 2 ^ (52 - 6)) = 4691249611844266"
    by simp
  then show ?thesis
    using to_double_eval [of 6 "8678811781911893 / 2 ^ 47 + 5"] by simp
qed


lemma foldl_to_double_exact:
  assumes "\<forall>x \<in> set xs. x \<in> \<nat> \<and> x \<le> 100" "a + 100 * length xs < 2 ^ 53"
  shows "\<exists>N. foldl (\<lambda>a b. to_double (a + b)) (real a) xs = real N
           \<and> real N = real a + sum_list xs \<and> N \<le> a + 100 * length xs"
  using assms
proof (induction xs arbitrary: a)
  case Nil
  then show ?case by simp
next
  case (Cons x xs)
  from Cons.prems(1) obtain k where k: "x = real k" and k100: "k \<le> 100"
    by (auto elim: Nats_cases)
  from Cons.prems(2) k100 have small: "a + k < 2 ^ 53" by simp
  have step: "to_double (real a + real k) = real a + real k"
    using to_double_of_nat [OF small] by simp
  from Cons.prems(2) k100 have "(a + k) + 100 * length xs < 2 ^ 53" by simp
  moreover from Cons.prems(1) have "\<forall>x \<in> set xs. x \<in> \<nat> \<and> x \<le> 100" by simp
  ultimately obtain N where N: "foldl (\<lambda>a b. to_double (a + b)) (real (a + k)) xs = real N"
    "real N = real (a + k) + sum_list xs" "N \<le> (a + k) + 100 * length xs"
    using Cons.IH [of "a + k"] by blast
  from N k100 show ?case
    by (intro exI [of _ N]) (simp add: step k)
qed

lemma reduce_sum_exact:
  assumes "\<forall>x \<in> set xs. x \<in> \<nat> \<and> x \<le> 100" "length xs < 2 ^ 32"
  shows "\<exists>N. reduce_sum xs = real N \<and> sum_list xs = real N \<and> N \<le> 100 * length xs"
proof -
  from assms(2) have "100 * length xs < 100 * 2 ^ 32" by simp
  also have "\<dots> < (2::nat) ^ 53" by simp
  finally have "0 + 100 * length xs < 2 ^ 53" by simp
  from foldl_to_double_exact [OF assms(1) this]
  show ?thesis by (auto simp: reduce_sum_def)
qed

lemma to_double_numeral:
  assumes "(numeral w :: nat) < 2 ^ 53"
  shows "to_double (numeral w) = numeral w"
  using to_double_of_nat [OF assms] by simp

text \<open>
  C10 as stated: for the scores 61, 62, 62, 66, 67, 67 the mean of the last three,
  200/3, exceeds the mean of the first three, 185/3, by exactly 5 and not by more;
  the doubles compared are 66.66666666666667 and 66.66666666666666, and the trend is
  improving.
\<close>

theorem exact_tie_trend_counterexample:
  "mean (slice_last3 (map score
      [scored 61, scored 62, scored 62, scored 66, scored 67, scored 67]))
     = mean (slice_but_last3 (map score
      [scored 61, scored 62, scored 62, scored 66, scored 67, scored 67])) + 5 \<and>
   trend (calculateLessonStats 0
      \<lparr>quizAttempts = Some [scored 61, scored 62, scored 62, scored 66, scored 67, scored 67]\<rparr>)
     = Improving"
proof -
  have recent: "reduce_sum [66, 67, 67] = 200"
    by (simp add: reduce_sum_def to_double_numeral)
  have older: "reduce_sum [61, 62, 62] = 185"
    by (simp add: reduce_sum_def to_double_numeral)
  have "(4691249611844266 / 2 ^ 46 :: real) < 4691249611844267 / 2 ^ 46"
    by simp
  then have "to_double (to_double (185 / 3) + 5) < to_double (200 / 3)"
    by (simp only: tie_recent tie_older tie_older_plus_5)
  then have "trend (calculateLessonStats 0
      \<lparr>quizAttempts = Some [scored 61, scored 62, scored 62, scored 66, scored 67, scored 67]\<rparr>)
     = Improving"
    by (simp add: calculateLessonStats_def Let_def slice_last3_def slice_but_last3_def
        recent older)
  then show ?thesis
    by (simp add: mean_def slice_last3_def slice_but_last3_def)
qed


lemma int_quotient_gap:
  assumes "0 < real_of_int z / d" "0 < d"
  shows "1 / d \<le> real_of_int z / d"
proof -
  from assms have "0 < real_of_int z" by (simp add: zero_less_divide_iff)
  then have "1 \<le> z" by simp
  then have "1 \<le> real_of_int z" by simp
  with assms(2) show ?thesis by (simp add: divide_right_mono)
qed

lemma averages_gap:
  fixes s1 s2 k m :: nat
  assumes "1 \<le> k" "1 \<le> m"
  shows "real s2 / real m + 5 < real s1 / real k \<Longrightarrow>
           real s2 / real m + 5 + 1 / (real k * real m) \<le> real s1 / real k"
    and "real s1 / real k < real s2 / real m + 5 \<Longrightarrow>
           real s1 / real k + 1 / (real k * real m) \<le> real s2 / real m + 5"
    and "real s1 / real k < real s2 / real m - 5 \<Longrightarrow>
           real s1 / real k + 1 / (real k * real m) \<le> real s2 / real m - 5"
    and "real s2 / real m - 5 < real s1 / real k \<Longrightarrow>
           real s2 / real m - 5 + 1 / (real k * real m) \<le> real s1 / real k"
proof -
  define d where "d = real k * real m"
  have d: "0 < d" using assms by (simp add: d_def)
  define zp where "zp = int s1 * int m - int s2 * int k - 5 * int k * int m"
  define zm where "zm = int s1 * int m - int s2 * int k + 5 * int k * int m"
  have p: "real s1 / real k - (real s2 / real m + 5) = real_of_int zp / d"
    using assms by (simp add: zp_def d_def field_simps)
  have q: "real s1 / real k - (real s2 / real m - 5) = real_of_int zm / d"
    using assms by (simp add: zm_def d_def field_simps)
  have p': "real s2 / real m + 5 - real s1 / real k = real_of_int (- zp) / d"
    using p by simp
  have q': "real s2 / real m - 5 - real s1 / real k = real_of_int (- zm) / d"
    using q by simp
  show "real s2 / real m + 5 < real s1 / real k \<Longrightarrow>
           real s2 / real m + 5 + 1 / (real k * real m) \<le> real s1 / real k"
    using int_quotient_gap [of zp d] d p unfolding d_def [symmetric] by linarith
  show "real s1 / real k < real s2 / real m + 5 \<Longrightarrow>
           real s1 / real k + 1 / (real k * real m) \<le> real s2 / real m + 5"
    using int_quotient_gap [of "- zp" d] d p' unfolding d_def [symmetric] by linarith
  show "real s1 / real k < real s2 / real m - 5 \<Longrightarrow>
           real s1 / real k + 1 / (real k * real m) \<le> real s2 / real m - 5"
    using int_quotient_gap [of "- zm" d] d q' unfolding d_def [symmetric] by linarith
  show "real s2 / real m - 5 < real s1 / real k \<Longrightarrow>
           real s2 / real m - 5 + 1 / (real k * real m) \<le> real s1 / real k"
    using int_quotient_gap [of zm d] d q unfolding d_def [symmetric] by linarith
qed


lemma rounded_averages_compare:
  fixes s1 s2 k m :: nat
  assumes k: "1 \<le> k" "k \<le> 3" and m: "1 \<le> m" "m < 2 ^ 32"
    and s1: "s1 \<le> 100 * k" and s2: "s2 \<le> 100 * m"
  shows "real s2 / real m + 5 < real s1 / real k \<Longrightarrow>
           to_double (to_double (real s2 / real m) + 5) < to_double (real s1 / real k)"
    and "real s1 / real k < real s2 / real m + 5 \<Longrightarrow>
           to_double (real s1 / real k) < to_double (to_double (real s2 / real m) + 5)"
    and "real s1 / real k < real s2 / real m - 5 \<Longrightarrow>
           to_double (real s1 / real k) < to_double (to_double (real s2 / real m) - 5)"
    and "real s2 / real m - 5 < real s1 / real k \<Longrightarrow>
           to_double (to_double (real s2 / real m) - 5) < to_double (real s1 / real k)"
proof -
  define r where "r = real s1 / real k"
  define ol where "ol = real s2 / real m"
  define eps :: real where "eps = 1 / 2 ^ 53"
  define g where "g = 1 / (real k * real m)"
  have eps: "0 < eps" by (simp add: eps_def)
  have r: "0 \<le> r" "r \<le> 100"
  proof -
    show "0 \<le> r" by (simp add: r_def)
    from s1 have "real s1 \<le> 100 * real k" by (metis of_nat_le_iff of_nat_mult of_nat_numeral)
    with k(1) show "r \<le> 100" by (simp add: r_def pos_divide_le_eq)
  qed
  have ol: "0 \<le> ol" "ol \<le> 100"
  proof -
    show "0 \<le> ol" by (simp add: ol_def)
    from s2 have "real s2 \<le> 100 * real m" by (metis of_nat_le_iff of_nat_mult of_nat_numeral)
    with m(1) show "ol \<le> 100" by (simp add: ol_def pos_divide_le_eq)
  qed
  have err: "\<bar>to_double x - x\<bar> \<le> \<bar>x\<bar> * eps" for x
    using to_double_error [of x] by (simp add: eps_def)
  have eR: "\<bar>to_double r - r\<bar> \<le> 100 * eps"
  proof -
    from r eps have "\<bar>r\<bar> * eps \<le> 100 * eps" by (intro mult_right_mono) simp_all
    with err [of r] show ?thesis by linarith
  qed
  have eO: "\<bar>to_double ol - ol\<bar> \<le> 100 * eps"
  proof -
    from ol eps have "\<bar>ol\<bar> * eps \<le> 100 * eps" by (intro mult_right_mono) simp_all
    with err [of ol] show ?thesis by linarith
  qed
  have eps1: "100 * eps \<le> 1" by (simp add: eps_def)
  have O: "- 1 \<le> to_double ol" "to_double ol \<le> 101"
    using eO ol eps1 by linarith+
  have eP: "\<bar>to_double (to_double ol + 5) - (to_double ol + 5)\<bar> \<le> 106 * eps"
  proof -
    from O have "\<bar>to_double ol + 5\<bar> \<le> 106" by linarith
    with eps have "\<bar>to_double ol + 5\<bar> * eps \<le> 106 * eps" by (intro mult_right_mono) simp_all
    with err [of "to_double ol + 5"] show ?thesis by linarith
  qed
  have eQ: "\<bar>to_double (to_double ol - 5) - (to_double ol - 5)\<bar> \<le> 106 * eps"
  proof -
    from O have "\<bar>to_double ol - 5\<bar> \<le> 106" by linarith
    with eps have "\<bar>to_double ol - 5\<bar> * eps \<le> 106 * eps" by (intro mult_right_mono) simp_all
    with err [of "to_double ol - 5"] show ?thesis by linarith
  qed
  have gap: "306 * eps < g"
  proof -
    from k m have "k * m < 3 * 2 ^ 32"
      by (metis mult_le_mono1 mult_less_mono2 le_less_trans zero_less_numeral)
    then have "real (k * m) < real (3 * 2 ^ 32)" by (simp only: of_nat_less_iff)
    then have km: "real k * real m < 3 * 2 ^ 32" by simp
    from k(1) m(1) have pos: "0 < real k * real m" by simp
    have "306 * eps < 1 / (3 * 2 ^ 32)" by (simp add: eps_def)
    also from km pos have "1 / (3 * 2 ^ 32) < 1 / (real k * real m)"
      by (intro divide_strict_left_mono) simp_all
    finally show ?thesis by (simp add: g_def)
  qed
  have gaps: "ol + 5 < r \<Longrightarrow> ol + 5 + g \<le> r" "r < ol + 5 \<Longrightarrow> r + g \<le> ol + 5"
    "r < ol - 5 \<Longrightarrow> r + g \<le> ol - 5" "ol - 5 < r \<Longrightarrow> ol - 5 + g \<le> r"
    unfolding r_def ol_def g_def
    by (rule averages_gap [OF k(1) m(1)]; assumption)+
  show "real s2 / real m + 5 < real s1 / real k \<Longrightarrow>
           to_double (to_double (real s2 / real m) + 5) < to_double (real s1 / real k)"
    unfolding r_def [symmetric] ol_def [symmetric]
    using gaps(1) eR eO eP gap by linarith
  show "real s1 / real k < real s2 / real m + 5 \<Longrightarrow>
           to_double (real s1 / real k) < to_double (to_double (real s2 / real m) + 5)"
    unfolding r_def [symmetric] ol_def [symmetric]
    using gaps(2) eR eO eP gap by linarith
  show "real s1 / real k < real s2 / real m - 5 \<Longrightarrow>
           to_double (real s1 / real k) < to_double (to_double (real s2 / real m) - 5)"
    unfolding r_def [symmetric] ol_def [symmetric]
    using gaps(3) eR eO eQ gap by linarith
  show "real s2 / real m - 5 < real s1 / real k \<Longrightarrow>
           to_double (to_double (real s2 / real m) - 5) < to_double (real s1 / real k)"
    unfolding r_def [symmetric] ol_def [symmetric]
    using gaps(4) eR eO eQ gap by linarith
qed


lemma trend_calculateLessonStats:
  assumes "quizAttempts l = Some as" "2 \<le> length as"
  shows "trend (calculateLessonStats now l) =
    (if to_double (reduce_sum (slice_last3 (map score as)) / real (min 3 (length as)))
          > to_double (to_double (reduce_sum (slice_but_last3 (map score as))
                                    / real (max 1 (length as - 3))) + 5)
       then Improving
     else if to_double (reduce_sum (slice_last3 (map score as)) / real (min 3 (length as)))
          < to_double (to_double (reduce_sum (slice_but_last3 (map score as))
                                    / real (max 1 (length as - 3))) - 5)
       then Declining
     else Neutral)"
proof -
  from assms(2) have "as \<noteq> []" by auto
  moreover have "max 1 (int (length as) - 3) = int (max 1 (length as - 3))"
    by (auto simp: max_def)
  then have "real_of_int (max 1 (int (length as) - 3)) = real (max 1 (length as - 3))"
    by simp
  ultimately show ?thesis
    using assms by (simp add: calculateLessonStats_def Let_def)
qed

lemma trend_exact:
  assumes l: "quizAttempts l = Some as"
    and len: "2 \<le> length as" "length as < 2 ^ 32"
    and sc: "\<forall>a \<in> set as. score a \<in> \<nat> \<and> score a \<le> 100"
  shows "sum_list (slice_but_last3 (map score as)) / real (max 1 (length as - 3)) + 5
           < sum_list (slice_last3 (map score as)) / real (min 3 (length as))
         \<Longrightarrow> trend (calculateLessonStats now l) = Improving"
    and "sum_list (slice_last3 (map score as)) / real (min 3 (length as))
           < sum_list (slice_but_last3 (map score as)) / real (max 1 (length as - 3)) - 5
         \<Longrightarrow> trend (calculateLessonStats now l) = Declining"
    and "sum_list (slice_but_last3 (map score as)) / real (max 1 (length as - 3)) - 5
           < sum_list (slice_last3 (map score as)) / real (min 3 (length as))
         \<Longrightarrow> sum_list (slice_last3 (map score as)) / real (min 3 (length as))
           < sum_list (slice_but_last3 (map score as)) / real (max 1 (length as - 3)) + 5
         \<Longrightarrow> trend (calculateLessonStats now l) = Neutral"
proof -
  let ?xs = "map score as"
  define k where "k = min 3 (length as)"
  define m where "m = max 1 (length as - 3)"
  have k: "1 \<le> k" "k \<le> 3" using len by (simp_all add: k_def)
  have m: "1 \<le> m" "m < 2 ^ 32" using len by (simp_all add: m_def)
  have scores: "\<forall>x \<in> set ?xs. x \<in> \<nat> \<and> x \<le> 100"
    using sc by simp
  have last3: "\<forall>x \<in> set (slice_last3 ?xs). x \<in> \<nat> \<and> x \<le> 100"
    using scores unfolding slice_last3_def by (meson in_set_dropD)
  have but3: "\<forall>x \<in> set (slice_but_last3 ?xs). x \<in> \<nat> \<and> x \<le> 100"
    using scores unfolding slice_but_last3_def by (meson in_set_takeD)
  have len1: "length (slice_last3 ?xs) = k"
    by (simp add: slice_last3_def k_def)
  have len2: "length (slice_but_last3 ?xs) \<le> m"
    by (simp add: slice_but_last3_def m_def)
  from len1 k have "length (slice_last3 ?xs) < 2 ^ 32" by simp
  from reduce_sum_exact [OF last3 this] len1
  obtain s1 where s1: "reduce_sum (slice_last3 ?xs) = real s1"
    "sum_list (slice_last3 ?xs) = real s1" "s1 \<le> 100 * k"
    by auto
  from len2 m have "length (slice_but_last3 ?xs) < 2 ^ 32" by simp
  from reduce_sum_exact [OF but3 this] len2
  obtain s2 where s2: "reduce_sum (slice_but_last3 ?xs) = real s2"
    "sum_list (slice_but_last3 ?xs) = real s2" "s2 \<le> 100 * m"
    by (meson le_trans mult_le_mono2)
  note cmp = rounded_averages_compare [OF k m s1(3) s2(3)]
  note t = trend_calculateLessonStats [OF l len(1), of now, folded k_def m_def,
      unfolded s1(1) s2(1)]
  show "sum_list (slice_but_last3 ?xs) / real (max 1 (length as - 3)) + 5
           < sum_list (slice_last3 ?xs) / real (min 3 (length as))
         \<Longrightarrow> trend (calculateLessonStats now l) = Improving"
    unfolding k_def [symmetric] m_def [symmetric] s1(2) s2(2)
    using cmp(1) t by simp
  show "sum_list (slice_last3 ?xs) / real (min 3 (length as))
           < sum_list (slice_but_last3 ?xs) / real (max 1 (length as - 3)) - 5
         \<Longrightarrow> trend (calculateLessonStats now l) = Declining"
    unfolding k_def [symmetric] m_def [symmetric] s1(2) s2(2)
  proof -
    assume a: "real s1 / real k < real s2 / real m - 5"
    then have "real s1 / real k < real s2 / real m + 5" by simp
    from cmp(2) [OF this] cmp(3) [OF a] t show ?thesis by simp
  qed
  show "sum_list (slice_but_last3 ?xs) / real (max 1 (length as - 3)) - 5
           < sum_list (slice_last3 ?xs) / real (min 3 (length as))
         \<Longrightarrow> sum_list (slice_last3 ?xs) / real (min 3 (length as))
           < sum_list (slice_but_last3 ?xs) / real (max 1 (length as - 3)) + 5
         \<Longrightarrow> trend (calculateLessonStats now l) = Neutral"
    unfolding k_def [symmetric] m_def [symmetric] s1(2) s2(2)
  proof -
    assume a: "real s2 / real m - 5 < real s1 / real k"
      and b: "real s1 / real k < real s2 / real m + 5"
    from cmp(4) [OF a] cmp(2) [OF b] t show ?thesis by simp
  qed
qed


lemma slices_long:
  assumes "4 \<le> length (xs :: real list)"
  shows "sum_list (slice_last3 xs) / real (min 3 (length xs)) = mean (slice_last3 xs)"
    and "sum_list (slice_but_last3 xs) / real (max 1 (length xs - 3)) = mean (slice_but_last3 xs)"
proof -
  from assms have "length (slice_last3 xs) = 3" "min 3 (length xs) = 3"
    by (simp_all add: slice_last3_def)
  then show "sum_list (slice_last3 xs) / real (min 3 (length xs)) = mean (slice_last3 xs)"
    by (simp add: mean_def)
  from assms have "length (slice_but_last3 xs) = length xs - 3"
    by (simp add: slice_but_last3_def)
  moreover from assms have "max 1 (length xs - 3) = length xs - 3"
    by simp
  ultimately show "sum_list (slice_but_last3 xs) / real (max 1 (length xs - 3))
      = mean (slice_but_last3 xs)"
    by (simp add: mean_def)
qed

lemma slices_short:
  assumes "2 \<le> length (xs :: real list)" "length xs \<le> 3"
  shows "slice_last3 xs = xs" and "slice_but_last3 xs = []"
    and "sum_list (slice_last3 xs) / real (min 3 (length xs)) = mean xs"
    and "sum_list (slice_but_last3 xs) / real (max 1 (length xs - 3)) = 0"
  using assms by (simp_all add: slice_last3_def slice_but_last3_def mean_def min_def)

lemma trend_short:
  assumes l: "quizAttempts l = Some as"
    and len: "2 \<le> length as" "length as \<le> 3"
    and sc: "\<forall>a \<in> set as. score a \<in> \<nat> \<and> score a \<le> 100"
  shows "trend (calculateLessonStats now l)
    = (if 5 < mean (map score as) then Improving else Neutral)"
proof -
  let ?xs = "map score as"
  from len have lxs: "2 \<le> length ?xs" "length ?xs \<le> 3" by simp_all
  from len have small: "length as < 2 ^ 32" by simp
  note ex = trend_exact [OF l len(1) small sc, of now]
  note sh = slices_short [OF lxs, simplified]
  have "0 \<le> score a" if "a \<in> set as" for a
  proof -
    from that sc have "score a \<in> \<nat>" by blast
    then show ?thesis by (rule Nats_cases) simp
  qed
  then have nonneg: "0 \<le> mean ?xs"
    by (auto simp: mean_def intro!: divide_nonneg_nonneg sum_list_nonneg)
  consider "5 < mean ?xs" | "mean ?xs < 5" | "mean ?xs = 5" by linarith
  then show ?thesis
  proof cases
    case 1
    then have "trend (calculateLessonStats now l) = Improving"
      using ex(1) sh(3,4) by simp
    with 1 show ?thesis by simp
  next
    case 2
    with nonneg have "trend (calculateLessonStats now l) = Neutral"
      using ex(3) sh(3,4) by simp
    with 2 show ?thesis by simp
  next
    case 3
    from sc have scores: "\<forall>x \<in> set ?xs. x \<in> \<nat> \<and> x \<le> 100" by simp
    from len have "length ?xs < 2 ^ 32" by simp
    from reduce_sum_exact [OF scores this]
    have rs: "reduce_sum ?xs = sum_list ?xs" by auto
    have five: "to_double 5 = 5" "to_double (- 5) = - 5"
      using to_double_of_int [of 5] to_double_of_int [of "- 5"] by simp_all
    have zero: "to_double 0 = 0" by (simp add: to_double_def)
    from 3 sh(3) have "sum_list ?xs / real (min 3 (length as)) = 5"
      by (simp add: sh(1))
    then have A: "reduce_sum (slice_last3 ?xs) / real (min 3 (length as)) = 5"
      by (simp only: sh(1) rs)
    have B: "reduce_sum (slice_but_last3 ?xs) / real (max 1 (length as - 3)) = 0"
      by (simp add: sh(2) reduce_sum_def)
    have "trend (calculateLessonStats now l) = Neutral"
      unfolding trend_calculateLessonStats [OF l len(1), of now] A B
      by (simp add: five zero)
    with 3 show ?thesis by simp
  qed
qed


text \<open>
  C10, as the code has it: with no attempts the statistics are the default record;
  with one attempt the trend is neutral. For integer scores between 0 and 100 and
  four or more attempts, the trend is improving when the mean of the last three
  scores exceeds the mean of the scores before them by more than 5, declining when
  it is below that mean by more than 5, and neutral when the two means differ by
  less than 5; when they differ by exactly 5 the rounding of the two double averages
  decides. With two or three attempts there are no scores before the last three,
  the older average is 0, and the trend is improving when the mean of all scores
  exceeds 5 and neutral otherwise.
\<close>

theorem calculateLessonStats_trend:
  "(quizAttempts l = None \<or> quizAttempts l = Some [] \<longrightarrow>
      calculateLessonStats now l =
        \<lparr>averageScore = 0, attemptCount = 0, averageLearningStrength = 5,
         currentRetention = 0, trend = Neutral, stats_nextReviewDate = None\<rparr>) \<and>
   (quizAttempts l = Some [a] \<longrightarrow> trend (calculateLessonStats now l) = Neutral) \<and>
   (quizAttempts l = Some as \<and> 4 \<le> length as \<and> length as < 2 ^ 32 \<and>
    (\<forall>a \<in> set as. score a \<in> \<nat> \<and> score a \<le> 100) \<longrightarrow>
      (mean (slice_but_last3 (map score as)) + 5 < mean (slice_last3 (map score as)) \<longrightarrow>
         trend (calculateLessonStats now l) = Improving) \<and>
      (mean (slice_last3 (map score as)) < mean (slice_but_last3 (map score as)) - 5 \<longrightarrow>
         trend (calculateLessonStats now l) = Declining) \<and>
      (mean (slice_but_last3 (map score as)) - 5 < mean (slice_last3 (map score as)) \<and>
       mean (slice_last3 (map score as)) < mean (slice_but_last3 (map score as)) + 5 \<longrightarrow>
         trend (calculateLessonStats now l) = Neutral)) \<and>
   (quizAttempts l = Some as \<and> 2 \<le> length as \<and> length as \<le> 3 \<and>
    (\<forall>a \<in> set as. score a \<in> \<nat> \<and> score a \<le> 100) \<longrightarrow>
      slice_but_last3 (map score as) = [] \<and>
      trend (calculateLessonStats now l)
        = (if 5 < mean (map score as) then Improving else Neutral))"
proof -
  have empty: "calculateLessonStats now l =
        \<lparr>averageScore = 0, attemptCount = 0, averageLearningStrength = 5,
         currentRetention = 0, trend = Neutral, stats_nextReviewDate = None\<rparr>"
    if "quizAttempts l = None \<or> quizAttempts l = Some []"
    using that by (auto simp: calculateLessonStats_def)
  have single: "trend (calculateLessonStats now l) = Neutral" if "quizAttempts l = Some [a]"
    using that by (simp add: calculateLessonStats_def Let_def)
  have long:
    "(mean (slice_but_last3 (map score as)) + 5 < mean (slice_last3 (map score as)) \<longrightarrow>
         trend (calculateLessonStats now l) = Improving) \<and>
      (mean (slice_last3 (map score as)) < mean (slice_but_last3 (map score as)) - 5 \<longrightarrow>
         trend (calculateLessonStats now l) = Declining) \<and>
      (mean (slice_but_last3 (map score as)) - 5 < mean (slice_last3 (map score as)) \<and>
       mean (slice_last3 (map score as)) < mean (slice_but_last3 (map score as)) + 5 \<longrightarrow>
         trend (calculateLessonStats now l) = Neutral)"
    if l: "quizAttempts l = Some as" and len: "4 \<le> length as" "length as < 2 ^ 32"
      and sc: "\<forall>a \<in> set as. score a \<in> \<nat> \<and> score a \<le> 100"
  proof -
    from len(1) have two: "2 \<le> length as" and four: "4 \<le> length (map score as)"
      by simp_all
    have e1: "sum_list (slice_last3 (map score as)) / real (min 3 (length as))
        = mean (slice_last3 (map score as))"
      using slices_long(1) [OF four] by simp
    have e2: "sum_list (slice_but_last3 (map score as)) / real (max 1 (length as - 3))
        = mean (slice_but_last3 (map score as))"
      using slices_long(2) [OF four] by simp
    note ex = trend_exact [OF l two len(2) sc, of now, unfolded e1 e2]
    from ex show ?thesis by blast
  qed
  have short: "slice_but_last3 (map score as) = [] \<and>
      trend (calculateLessonStats now l)
        = (if 5 < mean (map score as) then Improving else Neutral)"
    if l: "quizAttempts l = Some as" and len: "2 \<le> length as" "length as \<le> 3"
      and sc: "\<forall>a \<in> set as. score a \<in> \<nat> \<and> score a \<le> 100"
  proof -
    from len have "2 \<le> length (map score as)" "length (map score as) \<le> 3" by simp_all
    then have "slice_but_last3 (map score as) = []" by (rule slices_short(2))
    with trend_short [OF l len sc, of now] show ?thesis by simp
  qed
  from empty single long short show ?thesis by blast
qed

theorem calculateLessonStats_trend_witness:
  "calculateLessonStats 0 \<lparr>quizAttempts = None\<rparr> =
     \<lparr>averageScore = 0, attemptCount = 0, averageLearningStrength = 5,
      currentRetention = 0, trend = Neutral, stats_nextReviewDate = None\<rparr> \<and>
   trend (calculateLessonStats 0 \<lparr>quizAttempts = Some [scored 100]\<rparr>) = Neutral \<and>
   trend (calculateLessonStats 0
     \<lparr>quizAttempts = Some [scored 10, scored 90, scored 90, scored 90]\<rparr>) = Improving \<and>
   trend (calculateLessonStats 0
     \<lparr>quizAttempts = Some [scored 90, scored 10, scored 10, scored 10]\<rparr>) = Declining \<and>
   trend (calculateLessonStats 0
     \<lparr>quizAttempts = Some [scored 50, scored 52, scored 52, scored 52]\<rparr>) = Neutral \<and>
   trend (calculateLessonStats 0 \<lparr>quizAttempts = Some [scored 100, scored 10]\<rparr>) = Improving"
  using
    calculateLessonStats_trend [where l = "\<lparr>quizAttempts = None\<rparr>" and now = 0]
    calculateLessonStats_trend [where l = "\<lparr>quizAttempts = Some [scored 100]\<rparr>"
      and now = 0 and a = "scored 100"]
    calculateLessonStats_trend
      [where l = "\<lparr>quizAttempts = Some [scored 10, scored 90, scored 90, scored 90]\<rparr>"
        and now = 0 and as = "[scored 10, scored 90, scored 90, scored 90]"]
    calculateLessonStats_trend
      [where l = "\<lparr>quizAttempts = Some [scored 90, scored 10, scored 10, scored 10]\<rparr>"
        and now = 0 and as = "[scored 90, scored 10, scored 10, scored 10]"]
    calculateLessonStats_trend
      [where l = "\<lparr>quizAttempts = Some [scored 50, scored 52, scored 52, scored 52]\<rparr>"
        and now = 0 and as = "[scored 50, scored 52, scored 52, scored 52]"]
    calculateLessonStats_trend [where l = "\<lparr>quizAttempts = Some [scored 100, scored 10]\<rparr>"
      and now = 0 and as = "[scored 100, scored 10]"]
  by (simp add: mean_def slice_last3_def slice_but_last3_def)

end
